theory Spec2Isabelle
  imports Complex_Main
begin

section \<open>JavaScript values\<close>

text \<open>
  The value of \<^verbatim>\<open>JSON.parse\<close>: a JSON value. An object is the association list of its
  own properties, read with \<open>map_of\<close>. A property that is absent reads as \<^verbatim>\<open>undefined\<close>,
  which is \<open>None\<close> of \<open>json option\<close>.
\<close>

datatype json =
    JNull
  | JBool bool
  | JNum real
  | JStr string
  | JArr "json list"
  | JObj "(string \<times> json) list"

text \<open>JavaScript's truthiness, as \<^verbatim>\<open>||\<close> tests it (\<^verbatim>\<open>JSON.parse\<close> yields no NaN).\<close>

fun truthy :: "json \<Rightarrow> bool" where
  "truthy JNull = False"
| "truthy (JBool b) = b"
| "truthy (JNum n) = (n \<noteq> 0)"
| "truthy (JStr s) = (s \<noteq> [])"
| "truthy (JArr xs) = True"
| "truthy (JObj fs) = True"

text \<open>\<^verbatim>\<open>a || b\<close> where \<open>a\<close> may be undefined.\<close>

definition js_or :: "json option \<Rightarrow> json option \<Rightarrow> json option" where
  "js_or a b = (case a of None \<Rightarrow> b | Some v \<Rightarrow> if truthy v then Some v else b)"

text \<open>
  \<^verbatim>\<open>v.k\<close> on a value that is not null, for the property names the gateway reads
  (action, lang, model, type, delta, transcript, item_id, error, message): only an object
  has them. On null the access throws a TypeError; every caller below tests for \<open>JNull\<close>
  first.
\<close>

fun member :: "json \<Rightarrow> string \<Rightarrow> json option" where
  "member (JObj fs) k = map_of fs k"
| "member v k = None"

text \<open>\<^verbatim>\<open>v?.k\<close>: undefined when \<open>v\<close> is undefined or null.\<close>

fun optional_member :: "json option \<Rightarrow> string \<Rightarrow> json option" where
  "optional_member None k = None"
| "optional_member (Some JNull) k = None"
| "optional_member (Some v) k = member v k"

section \<open>Messages on the two connections\<close>

text \<open>
  What \<^verbatim>\<open>client.send\<close> is given: the object handed to \<^verbatim>\<open>JSON.stringify\<close>, or a raw
  string. A property whose value is undefined is left out by \<^verbatim>\<open>JSON.stringify\<close>, so the
  properties copied from an upstream event are options.
\<close>

datatype client_event =
    Connected
  | Ready
  | Partial "json option" "json option"
  | Final "json option" "json option"
  | ErrorEvent string "json option"
  | Raw string

record transcription_config =
  config_type :: string
  input_audio_format :: string
  transcription_model :: string
  transcription_language :: string
  turn_detection_type :: string
  threshold :: real
  prefix_padding_ms :: nat
  silence_duration_ms :: nat
  noise_reduction_type :: string

text \<open>The constant \<^verbatim>\<open>config\<close> object of \<^verbatim>\<open>openOpenAIRealtime\<close>.\<close>

definition config :: transcription_config where
  "config = \<lparr> config_type = ''transcription_session.update'',
              input_audio_format = ''pcm16'',
              transcription_model = ''gpt-4o-transcribe'',
              transcription_language = ''en'',
              turn_detection_type = ''server_vad'',
              threshold = 0.5,
              prefix_padding_ms = 300,
              silence_duration_ms = 500,
              noise_reduction_type = ''near_field'' \<rparr>"

text \<open>
  What is sent upstream: the session configuration, or
  \<^verbatim>\<open>{type: "input_audio_buffer.append", audio}\<close>, where \<open>AudioAppend b\<close> carries the
  frame \<open>b\<close> whose base64 encoding is the \<^verbatim>\<open>audio\<close> property.
\<close>

datatype upstream_msg =
    SessionUpdate transcription_config
  | AudioAppend string

text \<open>
  An inbound client message, \<^verbatim>\<open>Buffer | string\<close>. A string is a list of bytes, and
  \<^verbatim>\<open>toString()\<close> of a buffer is the list of its bytes.
\<close>

datatype message = Text string | Binary string

section \<open>The ws library's sockets\<close>

datatype ready_state = CONNECTING | OPEN | CLOSING | CLOSED

text \<open>\<^verbatim>\<open>close()\<close>: an open or connecting socket starts closing; otherwise nothing.\<close>

fun ws_close :: "ready_state \<Rightarrow> ready_state" where
  "ws_close OPEN = CLOSING"
| "ws_close CONNECTING = CLOSING"
| "ws_close r = r"

text \<open>The state the library sets before it emits \<^verbatim>\<open>'error'\<close>, and in \<^verbatim>\<open>terminate()\<close>.\<close>

fun ws_fail :: "ready_state \<Rightarrow> ready_state" where
  "ws_fail CLOSED = CLOSED"
| "ws_fail r = CLOSING"

text \<open>
  A frame as a client puts it on the wire, and what the library hands to the
  \<^verbatim>\<open>'message'\<close> listener for it. Both servers import \<^verbatim>\<open>WebSocketServer\<close> from the
  library, an export it has from version 8 on, and from that version the listener's first
  argument is a \<^verbatim>\<open>Buffer\<close> for a text frame as for a binary one; the second argument,
  \<^verbatim>\<open>isBinary\<close>, is not read by the handlers.
\<close>

datatype frame = TextFrame string | BinaryFrame string

fun ws_message :: "frame \<Rightarrow> message" where
  "ws_message (TextFrame str) = Binary str"
| "ws_message (BinaryFrame b) = Binary b"

datatype promise_state = Pending | Resolved | Rejected

text \<open>
  One upstream \<^verbatim>\<open>WebSocket\<close> made by \<^verbatim>\<open>openOpenAIRealtime\<close>: its ready state, the
  messages transmitted on it, the bearer token of its handshake, the promise that
  \<^verbatim>\<open>openOpenAIRealtime\<close> returned for it, and whether the bridge's listeners (open,
  message, close, error: registered together after the \<^verbatim>\<open>await\<close>) are on it.
\<close>

record upstream_socket =
  u_readyState :: ready_state
  u_sent :: "upstream_msg list"
  token :: string
  promise :: promise_state
  listeners :: bool

text \<open>\<^verbatim>\<open>send\<close> transmits on an open socket; on a closing or closed one the data is discarded.\<close>

definition u_send :: "upstream_msg \<Rightarrow> upstream_socket \<Rightarrow> upstream_socket" where
  "u_send m sock =
     (if u_readyState sock = OPEN then sock\<lparr>u_sent := u_sent sock @ [m]\<rparr> else sock)"

section \<open>Credential minting\<close>

text \<open>
  What happens inside the \<^verbatim>\<open>try\<close> of \<^verbatim>\<open>mintEphemeralToken\<close>: a statement throws an error
  with a message (\<^verbatim>\<open>fetch\<close>, \<^verbatim>\<open>response.json()\<close>, reading \<^verbatim>\<open>client_secret.value\<close>), the
  response is not ok and has a status text, or \<^verbatim>\<open>data.client_secret.value\<close> is returned.
\<close>

datatype mint_attempt = Threw string | NotOk string | Minted string

text \<open>
  The result: \<open>Inl\<close> the message of the error thrown, \<open>Inr\<close> the token. The error of a
  response that is not ok is thrown inside the \<^verbatim>\<open>try\<close>, so the \<^verbatim>\<open>catch\<close> wraps it again.
\<close>

definition mintEphemeralToken :: "mint_attempt \<Rightarrow> string + string" where
  "mintEphemeralToken a =
     (case a of
        Threw m \<Rightarrow> Inl (''Failed to mint token: '' @ m)
      | NotOk st \<Rightarrow> Inl (''Failed to mint token: '' @ (''Failed to mint token: '' @ st))
      | Minted t \<Rightarrow> Inr t)"

text \<open>A request to the sessions endpoint: the \<^verbatim>\<open>model\<close> of its body, and whether it has settled.\<close>

record mint_request =
  body_model :: "json option"
  settled :: bool

section \<open>The session\<close>

text \<open>
  The client \<^verbatim>\<open>CustomWebSocket\<close> with its fields \<open>readyState\<close>, \<open>isAlive\<close> and
  \<open>upstream\<close> (a reference into \<open>sockets\<close>), what was transmitted to the client
  (\<open>outbox\<close>), the pings sent, whether \<^verbatim>\<open>terminate()\<close> destroyed the socket, and the
  objects the session created: the token requests and the upstream sockets, including
  those that \<^verbatim>\<open>client.upstream\<close> does not refer to. Console output is left out.
\<close>

record session =
  readyState :: ready_state
  isAlive :: bool
  upstream :: "nat option"
  outbox :: "client_event list"
  pings :: nat
  terminated :: bool
  mints :: "mint_request list"
  sockets :: "upstream_socket list"

text \<open>
  The surroundings of the handlers: \<^verbatim>\<open>JSON.parse\<close> (\<open>None\<close> when it throws),
  \<^verbatim>\<open>process.env.MODEL_NAME\<close>, and which of the two servers runs: the route module or the
  custom server, which differ in the client message handler only.
\<close>

datatype server = Route | Custom

record env =
  JSON_parse :: "string \<Rightarrow> json option"
  MODEL_NAME :: "string option"
  server :: server

definition client_send :: "client_event \<Rightarrow> session \<Rightarrow> session" where
  "client_send ev s = (if readyState s = OPEN then s\<lparr>outbox := outbox s @ [ev]\<rparr> else s)"

text \<open>The connection handler: \<^verbatim>\<open>isAlive = true\<close> and the \<^verbatim>\<open>connected\<close> acknowledgment.\<close>

definition onConnect :: session where
  "onConnect = \<lparr> readyState = OPEN, isAlive = True, upstream = None, outbox = [Connected],
                 pings = 0, terminated = False, mints = [], sockets = [] \<rparr>"

text \<open>\<^verbatim>\<open>client.upstream && client.upstream.readyState === WebSocket.OPEN\<close>\<close>

definition upstream_is_open :: "session \<Rightarrow> bool" where
  "upstream_is_open s =
     (case upstream s of
        None \<Rightarrow> False
      | Some j \<Rightarrow> j < length (sockets s) \<and> u_readyState (sockets s ! j) = OPEN)"

text \<open>
  The start command up to its first \<^verbatim>\<open>await\<close>: the guard, the defaults of \<open>lang\<close> and
  \<open>model\<close>, and the call of \<^verbatim>\<open>mintEphemeralToken(model)\<close>, which posts
  \<^verbatim>\<open>model || 'gpt-4o-transcribe'\<close>. \<open>lang\<close> is only logged.
\<close>

definition start :: "env \<Rightarrow> json \<Rightarrow> session \<Rightarrow> session" where
  "start e msg s =
     (if upstream_is_open s then client_send (ErrorEvent ''upstream_already_started'' None) s
      else
        let lang = js_or (member msg ''lang'') (Some (JStr ''en''));
            model = js_or (member msg ''model'')
                      (js_or (map_option JStr (MODEL_NAME e)) (Some (JStr ''gpt-4o-transcribe'')))
        in s\<lparr>mints := mints s @
                 [\<lparr> body_model = js_or model (Some (JStr ''gpt-4o-transcribe'')),
                    settled = False \<rparr>]\<rparr>)"

text \<open>The binary branch: one append message on the upstream, if it is there and open.\<close>

definition forward_audio :: "string \<Rightarrow> session \<Rightarrow> session" where
  "forward_audio b s =
     (case upstream s of
        None \<Rightarrow> s
      | Some j \<Rightarrow>
          if j < length (sockets s) \<and> u_readyState (sockets s ! j) = OPEN
          then s\<lparr>sockets := (sockets s)[j := u_send (AudioAppend b) (sockets s ! j)]\<rparr>
          else s)"

text \<open>
  The command part of the message handler, after \<^verbatim>\<open>JSON.parse\<close> returned \<open>msg\<close>, which
  is not null: a start command starts, anything else does nothing.
\<close>

definition command :: "env \<Rightarrow> json \<Rightarrow> session \<Rightarrow> session" where
  "command e msg s = (if member msg ''action'' = Some (JStr ''start'') then start e msg s else s)"

text \<open>
  The message handler of the route module: a string is parsed, and a parse error or the
  TypeError of \<^verbatim>\<open>msg.action\<close> on null is caught and logged; a buffer is audio.
\<close>

definition onMessage_route :: "env \<Rightarrow> message \<Rightarrow> session \<Rightarrow> session" where
  "onMessage_route e m s =
     (case m of
        Text str \<Rightarrow>
          (case JSON_parse e str of
             None \<Rightarrow> s
           | Some JNull \<Rightarrow> s
           | Some msg \<Rightarrow> command e msg s)
      | Binary b \<Rightarrow> forward_audio b s)"

text \<open>
  The message handler of the custom server: strings and buffers alike are parsed first;
  what the \<^verbatim>\<open>catch\<close> receives is audio when the message is a buffer, and logged otherwise.
\<close>

definition onMessage_custom :: "env \<Rightarrow> message \<Rightarrow> session \<Rightarrow> session" where
  "onMessage_custom e m s =
     (let messageStr = (case m of Text str \<Rightarrow> str | Binary b \<Rightarrow> b);
          caught = (case m of Text str \<Rightarrow> s | Binary b \<Rightarrow> forward_audio b s)
      in case JSON_parse e messageStr of
           None \<Rightarrow> caught
         | Some JNull \<Rightarrow> caught
         | Some msg \<Rightarrow> command e msg s)"

definition onMessage :: "env \<Rightarrow> message \<Rightarrow> session \<Rightarrow> session" where
  "onMessage e m s =
     (case server e of Route \<Rightarrow> onMessage_route e m s | Custom \<Rightarrow> onMessage_custom e m s)"

text \<open>
  The upstream message listener as a function of the data's text: the event for the
  client, or \<open>None\<close> when the branch sends nothing. A parse error and the TypeError of
  \<^verbatim>\<open>openaiMessage.type\<close> on null reach the \<^verbatim>\<open>catch\<close>, which forwards the text.
\<close>

definition translate :: "env \<Rightarrow> string \<Rightarrow> client_event option" where
  "translate e data =
     (case JSON_parse e data of
        None \<Rightarrow> Some (Raw data)
      | Some JNull \<Rightarrow> Some (Raw data)
      | Some m \<Rightarrow>
          if member m ''type'' = Some (JStr ''conversation.item.input_audio_transcription.delta'')
          then Some (Partial (member m ''delta'') (member m ''item_id''))
          else if member m ''type'' =
                    Some (JStr ''conversation.item.input_audio_transcription.completed'')
          then Some (Final (member m ''transcript'') (member m ''item_id''))
          else if member m ''type'' = Some (JStr ''input_audio_buffer.committed'')
          then None
          else if member m ''type'' = Some (JStr ''error'')
          then Some (ErrorEvent ''openai_error''
                       (js_or (optional_member (member m ''error'') ''message'')
                              (Some (JStr ''Unknown error''))))
          else Some (Raw data))"

definition onUpstreamMessage :: "env \<Rightarrow> string \<Rightarrow> session \<Rightarrow> session" where
  "onUpstreamMessage e data s =
     (case translate e data of None \<Rightarrow> s | Some ev \<Rightarrow> client_send ev s)"

text \<open>The bridge's listeners for the upstream's close and error.\<close>

definition onUpstreamClose :: "session \<Rightarrow> session" where
  "onUpstreamClose s =
     (if readyState s = OPEN then s\<lparr>readyState := ws_close (readyState s)\<rparr> else s)
     \<lparr>upstream := None\<rparr>"

definition onUpstreamError :: "string \<Rightarrow> session \<Rightarrow> session" where
  "onUpstreamError err s =
     (if readyState s = OPEN
      then (client_send (ErrorEvent ''openai_connection_failed'' (Some (JStr err))) s)
             \<lparr>readyState := ws_close (readyState s)\<rparr>
      else s)
     \<lparr>upstream := None\<rparr>"

text \<open>The client's close and error handlers have the same body.\<close>

definition onClientClose :: "session \<Rightarrow> session" where
  "onClientClose s =
     (case upstream s of
        None \<Rightarrow> s
      | Some j \<Rightarrow>
          if j < length (sockets s) \<and> u_readyState (sockets s ! j) = OPEN
          then s\<lparr>sockets := (sockets s)[j := (sockets s ! j)
                     \<lparr>u_readyState := ws_close (u_readyState (sockets s ! j))\<rparr>]\<rparr>
          else s)"

text \<open>The body of the heartbeat for one client of \<^verbatim>\<open>wss.clients\<close>.\<close>

definition heartbeat :: "session \<Rightarrow> session" where
  "heartbeat s =
     (if \<not> isAlive s
      then s\<lparr>readyState := ws_fail (readyState s), terminated := True\<rparr>
      else s\<lparr>isAlive := False,
             pings := (if readyState s = OPEN then pings s + 1 else pings s)\<rparr>)"

section \<open>The event loop\<close>

text \<open>
  The events a session reacts to. An \<^verbatim>\<open>async\<close> handler runs to its next \<^verbatim>\<open>await\<close>; what
  follows the \<^verbatim>\<open>await\<close> runs in the event that settles the promise, before any other
  event is handled. The sockets and token requests are numbered in the order the session
  made them. The custom server imports the library with \<^verbatim>\<open>await import\<close> before each of
  the two calls; the imports are taken to succeed, and the session is not read or written
  between an import and the call that follows it, so each call is placed at the event
  before its import.
\<close>

datatype event =
    ClientMessage message
  | ClientPong
  | ClientClose
  | ClientError
  | HeartbeatTick
  | MintSettled nat mint_attempt
  | UpstreamOpen nat
  | UpstreamMessage nat string
  | UpstreamClose nat
  | UpstreamError nat string

text \<open>
  The token request \<open>i\<close> settles: \<^verbatim>\<open>mintEphemeralToken\<close> throws, and the \<^verbatim>\<open>catch\<close> reports
  the setup failure; or it returns the token, and \<^verbatim>\<open>openOpenAIRealtime(token)\<close> makes a
  connecting socket with a pending promise.
\<close>

definition mintSettled :: "nat \<Rightarrow> mint_attempt \<Rightarrow> session \<Rightarrow> session" where
  "mintSettled i a s =
     (if i < length (mints s) \<and> \<not> settled (mints s ! i)
      then
        let s1 = s\<lparr>mints := (mints s)[i := (mints s ! i)\<lparr>settled := True\<rparr>]\<rparr>
        in case mintEphemeralToken a of
             Inl err \<Rightarrow> client_send (ErrorEvent ''upstream_setup_failed'' (Some (JStr err))) s1
           | Inr t \<Rightarrow>
               s1\<lparr>sockets := sockets s1 @
                     [\<lparr> u_readyState = CONNECTING, u_sent = [], token = t,
                        promise = Pending, listeners = False \<rparr>]\<rparr>
      else s)"

text \<open>
  The socket \<open>j\<close> opens, which the library emits once, on a connecting socket. The
  listener of \<^verbatim>\<open>openOpenAIRealtime\<close> sends the configuration and resolves the promise;
  the bridge's open listener runs if it is registered when the event is emitted; then the
  code after \<^verbatim>\<open>await openOpenAIRealtime(token)\<close> stores the socket in
  \<^verbatim>\<open>client.upstream\<close> and registers the bridge's listeners.
\<close>

definition upstreamOpen :: "nat \<Rightarrow> session \<Rightarrow> session" where
  "upstreamOpen j s =
     (if j < length (sockets s) \<and> u_readyState (sockets s ! j) = CONNECTING
      then
        let sock = sockets s ! j;
            configured = u_send (SessionUpdate config) (sock\<lparr>u_readyState := OPEN\<rparr>);
            resolved = configured\<lparr>promise :=
                         (if promise sock = Pending then Resolved else promise sock)\<rparr>;
            s1 = s\<lparr>sockets := (sockets s)[j := resolved]\<rparr>;
            s2 = (if listeners sock then client_send Ready s1 else s1)
        in if promise sock = Pending
           then s2\<lparr>upstream := Some j,
                   sockets := (sockets s2)[j := resolved\<lparr>listeners := True\<rparr>]\<rparr>
           else s2
      else s)"

text \<open>
  The socket \<open>j\<close> emits an error: the listener of \<^verbatim>\<open>openOpenAIRealtime\<close> rejects the
  promise, the bridge's error listener runs if it is registered, and a promise that was
  pending takes the code after the \<^verbatim>\<open>await\<close> to its \<^verbatim>\<open>catch\<close>.
\<close>

definition upstreamError :: "nat \<Rightarrow> string \<Rightarrow> session \<Rightarrow> session" where
  "upstreamError j err s =
     (if j < length (sockets s)
      then
        let sock = sockets s ! j;
            failed = sock\<lparr>u_readyState := ws_fail (u_readyState sock),
                         promise := (if promise sock = Pending then Rejected else promise sock)\<rparr>;
            s1 = s\<lparr>sockets := (sockets s)[j := failed]\<rparr>;
            s2 = (if listeners sock then onUpstreamError err s1 else s1)
        in if promise sock = Pending
           then client_send (ErrorEvent ''upstream_setup_failed'' (Some (JStr err))) s2
           else s2
      else s)"

text \<open>The socket \<open>j\<close> emits close: the library's listener logs, the bridge's runs if registered.\<close>

definition upstreamClose :: "nat \<Rightarrow> session \<Rightarrow> session" where
  "upstreamClose j s =
     (if j < length (sockets s)
      then
        let sock = sockets s ! j;
            s1 = s\<lparr>sockets := (sockets s)[j := sock\<lparr>u_readyState := CLOSED\<rparr>]\<rparr>
        in if listeners sock then onUpstreamClose s1 else s1
      else s)"

definition upstreamMessage :: "env \<Rightarrow> nat \<Rightarrow> string \<Rightarrow> session \<Rightarrow> session" where
  "upstreamMessage e j data s =
     (if j < length (sockets s) \<and> listeners (sockets s ! j)
      then onUpstreamMessage e data s else s)"

text \<open>
  One event. The client's close event finds the socket closed, and the server takes a
  closed client out of \<^verbatim>\<open>wss.clients\<close>, so the heartbeat passes it by.
\<close>

fun step :: "env \<Rightarrow> session \<Rightarrow> event \<Rightarrow> session" where
  "step e s (ClientMessage m) = onMessage e m s"
| "step e s ClientPong = s\<lparr>isAlive := True\<rparr>"
| "step e s ClientClose = onClientClose (s\<lparr>readyState := CLOSED\<rparr>)"
| "step e s ClientError = onClientClose (s\<lparr>readyState := ws_fail (readyState s)\<rparr>)"
| "step e s HeartbeatTick = (if readyState s = CLOSED then s else heartbeat s)"
| "step e s (MintSettled i a) = mintSettled i a s"
| "step e s (UpstreamOpen j) = upstreamOpen j s"
| "step e s (UpstreamMessage j data) = upstreamMessage e j data s"
| "step e s (UpstreamClose j) = upstreamClose j s"
| "step e s (UpstreamError j err) = upstreamError j err s"

text \<open>A session from its connection on.\<close>

definition run :: "env \<Rightarrow> event list \<Rightarrow> session" where
  "run e evs = foldl (step e) onConnect evs"


section \<open>Example surroundings\<close>

text \<open>
  \<^verbatim>\<open>JSON.parse\<close> on the texts of the examples below, for evaluating the handlers on
  concrete inputs: the JSON texts of the examples are listed with their values, and the
  other texts of the examples are not JSON. The general theorems hold for every value of
  \<open>JSON_parse\<close>.
\<close>

definition JSON_parse_examples :: \<open>string \<Rightarrow> json option\<close> where
  \<open>JSON_parse_examples = map_of
     [(''{"action":"start"}'', JObj [(''action'', JStr ''start'')]),
      (''{"action":"start","lang":"en","model":"m1"}'',
         JObj [(''action'', JStr ''start''), (''lang'', JStr ''en''), (''model'', JStr ''m1'')]),
      (''{"action":"start","lang":"fr","model":"m1"}'',
         JObj [(''action'', JStr ''start''), (''lang'', JStr ''fr''), (''model'', JStr ''m1'')]),
      (''{"action":"stop"}'', JObj [(''action'', JStr ''stop'')]),
      (''{"type":"conversation.item.input_audio_transcription.delta","delta":"hel","item_id":"x1"}'',
         JObj [(''type'', JStr ''conversation.item.input_audio_transcription.delta''),
               (''delta'', JStr ''hel''), (''item_id'', JStr ''x1'')]),
      (''null'', JNull),
      (''1234'', JNum 1234)]\<close>

definition route_env :: env where
  "route_env = \<lparr> JSON_parse = JSON_parse_examples, MODEL_NAME = None, server = Route \<rparr>"

definition custom_env :: env where
  "custom_env = \<lparr> JSON_parse = JSON_parse_examples, MODEL_NAME = None, server = Custom \<rparr>"

definition start_text :: string where
  \<open>start_text = ''{"action":"start","lang":"en","model":"m1"}''\<close>

section \<open>Vocabulary of the properties\<close>

text \<open>\<^verbatim>\<open>JSON.parse\<close> of the text returns a value that is not null: the text is read as a command.\<close>

definition parses_to_value :: "env \<Rightarrow> string \<Rightarrow> bool" where
  "parses_to_value e str =
     (case JSON_parse e str of None \<Rightarrow> False | Some JNull \<Rightarrow> False | Some msg \<Rightarrow> True)"

text \<open>The text is a start command: it parses to a value whose \<open>action\<close> is the string start.\<close>

definition is_start_command :: "env \<Rightarrow> string \<Rightarrow> bool" where
  "is_start_command e str =
     (case JSON_parse e str of
        None \<Rightarrow> False
      | Some JNull \<Rightarrow> False
      | Some msg \<Rightarrow> member msg ''action'' = Some (JStr ''start''))"

text \<open>Everything transmitted upstream by the session, socket by socket.\<close>

definition traffic :: "session \<Rightarrow> upstream_msg list list" where
  "traffic s = map u_sent (sockets s)"

text \<open>
  The type of an upstream event: the \<open>type\<close> property of the payload, when the payload is
  a JSON object and the property a string; and a property of the payload.
\<close>

definition event_type :: "env \<Rightarrow> string \<Rightarrow> string option" where
  "event_type e data =
     (case JSON_parse e data of
        Some (JObj fs) \<Rightarrow> (case map_of fs ''type'' of Some (JStr t) \<Rightarrow> Some t | _ \<Rightarrow> None)
      | _ \<Rightarrow> None)"

definition event_property :: "env \<Rightarrow> string \<Rightarrow> string \<Rightarrow> json option" where
  "event_property e data k =
     (case JSON_parse e data of Some (JObj fs) \<Rightarrow> map_of fs k | _ \<Rightarrow> None)"

text \<open>
  The client answers every ping: in the events, each heartbeat is followed by a pong
  before the next heartbeat. The flag tells whether a ping is unanswered so far.
\<close>

fun answers_pings :: "bool \<Rightarrow> event list \<Rightarrow> bool" where
  "answers_pings unanswered [] = True"
| "answers_pings unanswered (HeartbeatTick # evs) = (\<not> unanswered \<and> answers_pings True evs)"
| "answers_pings unanswered (ClientPong # evs) = answers_pings False evs"
| "answers_pings unanswered (ev # evs) = answers_pings unanswered evs"

section \<open>Invariants of a session\<close>

text \<open>
  What holds of every upstream socket of a session: while its promise is pending or
  rejected nothing was sent on it and the bridge's listeners are not on it; once the
  promise is resolved the listeners are on it, and what was sent is the configuration
  followed by audio.
\<close>

definition is_append :: "upstream_msg \<Rightarrow> bool" where
  "is_append m = (case m of AudioAppend b \<Rightarrow> True | SessionUpdate c \<Rightarrow> False)"

definition socket_ok :: "upstream_socket \<Rightarrow> bool" where
  "socket_ok k =
     (case promise k of
        Pending \<Rightarrow> \<not> listeners k \<and> u_sent k = []
      | Rejected \<Rightarrow> \<not> listeners k \<and> u_sent k = [] \<and> u_readyState k \<noteq> CONNECTING
      | Resolved \<Rightarrow> listeners k \<and> u_readyState k \<noteq> CONNECTING \<and>
          (case u_sent k of [] \<Rightarrow> False
           | m # ms \<Rightarrow> m = SessionUpdate config \<and> list_all is_append ms))"

text \<open>
  What holds of every session: \<^verbatim>\<open>client.upstream\<close> refers to a socket the session made,
  which has the bridge's listeners, and no ready acknowledgment was transmitted.
\<close>

definition session_ok :: "session \<Rightarrow> bool" where
  "session_ok s =
     (list_all socket_ok (sockets s) \<and>
      (\<forall>j. upstream s = Some j \<longrightarrow> j < length (sockets s) \<and> listeners (sockets s ! j)) \<and>
      Ready \<notin> set (outbox s))"


text \<open>
  Two sessions agree on what the heartbeat reads and writes, and the second is still among
  the server's clients if the first is.
\<close>

definition same_liveness :: "session \<Rightarrow> session \<Rightarrow> bool" where
  "same_liveness s s' \<longleftrightarrow>
     isAlive s' = isAlive s \<and> terminated s' = terminated s \<and>
     (readyState s \<noteq> CLOSED \<longrightarrow> readyState s' \<noteq> CLOSED)"

text \<open>
  The deployment's default model: \<^verbatim>\<open>process.env.MODEL_NAME\<close> when it is set and not empty,
  and \<^verbatim>\<open>gpt-4o-transcribe\<close> otherwise.
\<close>

definition default_model :: "env \<Rightarrow> json" where
  "default_model e =
     (case MODEL_NAME e of
        None \<Rightarrow> JStr ''gpt-4o-transcribe''
      | Some m \<Rightarrow> if m = [] then JStr ''gpt-4o-transcribe'' else JStr m)"

section \<open>Every session keeps the invariants\<close>

lemma list_all_update:
  "list_all P xs \<Longrightarrow> P x \<Longrightarrow> list_all P (xs[j := x])"
  by (cases "j < length xs") (auto simp add: list_all_length nth_list_update)

lemma list_all_nth: "list_all P xs \<Longrightarrow> j < length xs \<Longrightarrow> P (xs ! j)"
  by (simp add: list_all_length)

lemma ws_fail_not_connecting: "ws_fail r \<noteq> CONNECTING"
  by (cases r) simp_all

lemma translate_not_ready: "translate e data \<noteq> Some Ready"
  by (simp add: translate_def split: option.splits json.splits)

lemma client_send_ok:
  "session_ok s \<Longrightarrow> ev \<noteq> Ready \<Longrightarrow> session_ok (client_send ev s)"
  by (simp add: session_ok_def client_send_def split: option.splits)

lemma start_ok: "session_ok s \<Longrightarrow> session_ok (start e msg s)"
  by (simp add: start_def client_send_ok Let_def) (simp add: session_ok_def split: option.splits)

lemma command_ok: "session_ok s \<Longrightarrow> session_ok (command e msg s)"
  by (simp add: command_def start_ok)

lemma socket_ok_listeners_sent:
  "socket_ok k \<Longrightarrow> listeners k \<Longrightarrow>
     \<exists>ms. u_sent k = SessionUpdate config # ms \<and> list_all is_append ms"
  by (cases "promise k"; cases "u_sent k") (simp_all add: socket_ok_def)

lemma socket_ok_append:
  assumes "socket_ok k" "listeners k"
  shows "socket_ok (u_send (AudioAppend b) k)"
proof -
  from assms obtain ms where ms: "u_sent k = SessionUpdate config # ms" "list_all is_append ms"
    using socket_ok_listeners_sent by blast
  from assms have "promise k = Resolved" "u_readyState k \<noteq> CONNECTING"
    by (cases "promise k"; simp add: socket_ok_def)+
  with assms ms show ?thesis
    by (simp add: socket_ok_def u_send_def is_append_def)
qed

lemma forward_audio_ok:
  assumes "session_ok s"
  shows "session_ok (forward_audio b s)"
proof (cases "upstream s")
  case None
  with assms show ?thesis by (simp add: forward_audio_def)
next
  case (Some j)
  show ?thesis
  proof (cases "j < length (sockets s) \<and> u_readyState (sockets s ! j) = OPEN")
    case False
    with assms Some show ?thesis by (auto simp add: forward_audio_def)
  next
    case True
    from assms Some have l: "listeners (sockets s ! j)" and all: "list_all socket_ok (sockets s)"
      by (simp_all add: session_ok_def)
    from all True have "socket_ok (sockets s ! j)" by (simp add: list_all_nth)
    with l have ok: "socket_ok (u_send (AudioAppend b) (sockets s ! j))"
      by (simp add: socket_ok_append)
    have l': "listeners (u_send (AudioAppend b) (sockets s ! j))"
      using l by (simp add: u_send_def)
    from assms Some True ok l' all show ?thesis
      by (simp add: forward_audio_def session_ok_def list_all_update)
  qed
qed

lemma onMessage_ok: "session_ok s \<Longrightarrow> session_ok (onMessage e m s)"
  by (simp add: onMessage_def onMessage_route_def onMessage_custom_def command_ok
      forward_audio_ok Let_def split: server.splits message.splits option.splits json.splits)

lemma socket_ok_state:
  "socket_ok k \<Longrightarrow> r \<noteq> CONNECTING \<Longrightarrow> socket_ok (k\<lparr>u_readyState := r\<rparr>)"
  by (cases "promise k") (simp_all add: socket_ok_def)

lemma onClientClose_ok:
  assumes "session_ok s"
  shows "session_ok (onClientClose s)"
proof (cases "upstream s")
  case None
  with assms show ?thesis by (simp add: onClientClose_def)
next
  case (Some j)
  show ?thesis
  proof (cases "j < length (sockets s) \<and> u_readyState (sockets s ! j) = OPEN")
    case False
    with assms Some show ?thesis by (auto simp add: onClientClose_def)
  next
    case True
    from assms have all: "list_all socket_ok (sockets s)" by (simp add: session_ok_def)
    with True have "socket_ok (sockets s ! j)" by (simp add: list_all_nth)
    then have "socket_ok ((sockets s ! j)\<lparr>u_readyState := CLOSING\<rparr>)"
      by (rule socket_ok_state) simp
    with assms Some True all show ?thesis
      by (simp add: onClientClose_def session_ok_def list_all_update)
  qed
qed

lemma readyState_update_ok: "session_ok s \<Longrightarrow> session_ok (s\<lparr>readyState := r\<rparr>)"
  by (simp add: session_ok_def)

lemma isAlive_update_ok: "session_ok s \<Longrightarrow> session_ok (s\<lparr>isAlive := r\<rparr>)"
  by (simp add: session_ok_def)

lemma heartbeat_ok: "session_ok s \<Longrightarrow> session_ok (heartbeat s)"
  by (simp add: heartbeat_def session_ok_def)

lemma mintSettled_ok:
  assumes "session_ok s"
  shows "session_ok (mintSettled i a s)"
proof -
  have new: "socket_ok \<lparr> u_readyState = CONNECTING, u_sent = [], token = t,
                        promise = Pending, listeners = False \<rparr>" for t
    by (simp add: socket_ok_def)
  have m: "session_ok (s\<lparr>mints := ms\<rparr>)" for ms
    using assms by (simp add: session_ok_def)
  show ?thesis
  proof (cases "mintEphemeralToken a")
    case (Inl err)
    then show ?thesis using assms m
      by (simp add: mintSettled_def Let_def client_send_ok)
  next
    case (Inr t)
    then show ?thesis using assms new [of t]
      by (auto simp add: mintSettled_def Let_def session_ok_def nth_append split: option.splits)
  qed
qed

lemma upstreamOpen_ok:
  assumes "session_ok s"
  shows "session_ok (upstreamOpen j s)"
proof (cases "j < length (sockets s) \<and> u_readyState (sockets s ! j) = CONNECTING")
  case False
  with assms show ?thesis by (auto simp add: upstreamOpen_def)
next
  case True
  from assms have all: "list_all socket_ok (sockets s)" by (simp add: session_ok_def)
  with True have ok: "socket_ok (sockets s ! j)" by (simp add: list_all_nth)
  with True have p: "promise (sockets s ! j) = Pending" and l: "\<not> listeners (sockets s ! j)"
    and u: "u_sent (sockets s ! j) = []"
    by (cases "promise (sockets s ! j)"; simp add: socket_ok_def)+
  have "socket_ok (u_send (SessionUpdate config) ((sockets s ! j)\<lparr>u_readyState := OPEN\<rparr>)
          \<lparr>promise := Resolved, listeners := True\<rparr>)"
    using u by (simp add: socket_ok_def u_send_def)
  with assms True p l all show ?thesis
    by (simp add: upstreamOpen_def Let_def session_ok_def list_all_update)
qed

lemma onUpstreamError_ok: "session_ok s \<Longrightarrow> session_ok (onUpstreamError err s)"
  by (simp add: onUpstreamError_def session_ok_def client_send_def)

lemma onUpstreamClose_ok: "session_ok s \<Longrightarrow> session_ok (onUpstreamClose s)"
  by (simp add: onUpstreamClose_def session_ok_def)

lemma socket_ok_fail:
  "socket_ok k \<Longrightarrow>
   socket_ok (k\<lparr>u_readyState := ws_fail (u_readyState k),
               promise := (if promise k = Pending then Rejected else promise k)\<rparr>)"
  by (cases "promise k") (simp_all add: socket_ok_def ws_fail_not_connecting)

lemma sockets_update_ok:
  assumes "session_ok s" "j < length (sockets s)" "socket_ok k"
    "listeners k = listeners (sockets s ! j)"
  shows "session_ok (s\<lparr>sockets := (sockets s)[j := k]\<rparr>)"
  using assms
  by (auto simp add: session_ok_def list_all_update nth_list_update split: option.splits)

lemma upstreamError_ok:
  assumes "session_ok s"
  shows "session_ok (upstreamError j err s)"
proof (cases "j < length (sockets s)")
  case False
  with assms show ?thesis by (simp add: upstreamError_def)
next
  case True
  from assms have all: "list_all socket_ok (sockets s)" by (simp add: session_ok_def)
  with True have ok: "socket_ok (sockets s ! j)" by (simp add: list_all_nth)
  define k where "k = (sockets s ! j)\<lparr>u_readyState := ws_fail (u_readyState (sockets s ! j)),
               promise := (if promise (sockets s ! j) = Pending then Rejected
                           else promise (sockets s ! j))\<rparr>"
  have "socket_ok k" unfolding k_def using ok by (rule socket_ok_fail)
  moreover have "listeners k = listeners (sockets s ! j)" by (simp add: k_def)
  ultimately have s1: "session_ok (s\<lparr>sockets := (sockets s)[j := k]\<rparr>)"
    using assms True by (intro sockets_update_ok)
  have "upstreamError j err s =
          (let s1 = s\<lparr>sockets := (sockets s)[j := k]\<rparr>;
               s2 = (if listeners (sockets s ! j) then onUpstreamError err s1 else s1)
           in if promise (sockets s ! j) = Pending
              then client_send (ErrorEvent ''upstream_setup_failed'' (Some (JStr err))) s2
              else s2)"
    using True by (simp add: upstreamError_def Let_def k_def)
  with s1 show ?thesis
    by (simp add: Let_def onUpstreamError_ok client_send_ok)
qed

lemma upstreamClose_ok:
  assumes "session_ok s"
  shows "session_ok (upstreamClose j s)"
proof (cases "j < length (sockets s)")
  case False
  with assms show ?thesis by (simp add: upstreamClose_def)
next
  case True
  from assms have all: "list_all socket_ok (sockets s)" by (simp add: session_ok_def)
  with True have ok: "socket_ok (sockets s ! j)" by (simp add: list_all_nth)
  then have "socket_ok ((sockets s ! j)\<lparr>u_readyState := CLOSED\<rparr>)"
    by (rule socket_ok_state) simp
  then have s1: "session_ok (s\<lparr>sockets := (sockets s)[j := (sockets s ! j)\<lparr>u_readyState := CLOSED\<rparr>]\<rparr>)"
    using assms True by (intro sockets_update_ok) simp_all
  then show ?thesis using True
    by (simp add: upstreamClose_def Let_def onUpstreamClose_ok)
qed

lemma upstreamMessage_ok: "session_ok s \<Longrightarrow> session_ok (upstreamMessage e j data s)"
  using translate_not_ready [of e data]
  by (auto simp add: upstreamMessage_def onUpstreamMessage_def client_send_ok split: option.splits)

lemma step_ok: "session_ok s \<Longrightarrow> session_ok (step e s ev)"
  by (cases ev)
    (simp_all add: onMessage_ok isAlive_update_ok onClientClose_ok readyState_update_ok
      heartbeat_ok mintSettled_ok upstreamOpen_ok upstreamMessage_ok upstreamClose_ok
      upstreamError_ok)

lemma foldl_step_ok: "session_ok s \<Longrightarrow> session_ok (foldl (step e) s evs)"
  by (induction evs arbitrary: s) (simp_all add: step_ok)

lemma onConnect_ok: "session_ok onConnect"
  by (simp add: session_ok_def onConnect_def)

lemma run_ok: "session_ok (run e evs)"
  unfolding run_def by (rule foldl_step_ok) (rule onConnect_ok)



section \<open>Evaluating the handlers\<close>

lemmas eval_defs =
  run_def onConnect_def route_env_def custom_env_def JSON_parse_examples_def start_text_def
  onMessage_def onMessage_route_def onMessage_custom_def command_def start_def
  upstream_is_open_def js_or_def forward_audio_def client_send_def u_send_def
  mintSettled_def mintEphemeralToken_def upstreamOpen_def upstreamError_def upstreamClose_def
  upstreamMessage_def onUpstreamMessage_def onUpstreamError_def onUpstreamClose_def
  onClientClose_def heartbeat_def translate_def Let_def

section \<open>A second start\<close>

text \<open>
  A start command that arrives while \<^verbatim>\<open>client.upstream\<close> is open is answered with
  \<^verbatim>\<open>upstream_already_started\<close> and does nothing else, under either server.
\<close>

lemma start_rejected_while_open:
  assumes "upstream_is_open s" "JSON_parse e str = Some msg" "msg \<noteq> JNull"
    "member msg ''action'' = Some (JStr ''start'')"
  shows "step e s (ClientMessage (Text str)) =
           client_send (ErrorEvent ''upstream_already_started'' None) s"
  using assms
  by (cases msg; cases "server e")
     (simp_all add: onMessage_def onMessage_route_def onMessage_custom_def command_def start_def)

text \<open>
  C1. The claim: a session owns at most one live upstream, a second start while one is
  open is rejected with \<^verbatim>\<open>upstream_already_started\<close>, and so is a second start that arrives
  while the first is suspended in minting or opening. The code at the input of two start
  commands in a row: the second is not rejected (the client is sent nothing, two token
  requests are pending); when both requests and both sockets complete, the session has two
  open upstream sockets with the bridge's listeners, \<^verbatim>\<open>client.upstream\<close> is the second, and
  the client's close closes the second only: the first stays open.
\<close>

theorem concurrent_start_opens_second_upstream:
  "outbox (run route_env [ClientMessage (Text start_text), ClientMessage (Text start_text)])
     = [Connected] \<and>
   map settled (mints (run route_env
     [ClientMessage (Text start_text), ClientMessage (Text start_text)])) = [False, False] \<and>
   run route_env
     [ClientMessage (Text start_text), ClientMessage (Text start_text),
      MintSettled 0 (Minted ''t0''), MintSettled 1 (Minted ''t1''),
      UpstreamOpen 0, UpstreamOpen 1, ClientClose] =
   \<lparr> readyState = CLOSED, isAlive = True, upstream = Some 1, outbox = [Connected],
     pings = 0, terminated = False,
     mints = [\<lparr> body_model = Some (JStr ''m1''), settled = True \<rparr>,
              \<lparr> body_model = Some (JStr ''m1''), settled = True \<rparr>],
     sockets = [\<lparr> u_readyState = OPEN, u_sent = [SessionUpdate config], token = ''t0'',
                  promise = Resolved, listeners = True \<rparr>,
                \<lparr> u_readyState = CLOSING, u_sent = [SessionUpdate config], token = ''t1'',
                  promise = Resolved, listeners = True \<rparr>] \<rparr>"
  by (simp add: eval_defs)

section \<open>The ready acknowledgment\<close>

text \<open>
  The bridge registers its open listener after \<^verbatim>\<open>await openOpenAIRealtime(token)\<close>, which
  resolves inside the socket's open event: no session ever transmits \<^verbatim>\<open>{ready:true}\<close>.
\<close>

lemma ready_never_sent: "Ready \<notin> set (outbox (run e evs))"
  using run_ok [of e evs] by (simp add: session_ok_def)

text \<open>
  C2. The claim: after every successful start the client receives \<^verbatim>\<open>{ready:true}\<close>. The
  code at the input of a start command whose token is minted and whose upstream opens:
  the upstream is open, configured and stored in \<^verbatim>\<open>client.upstream\<close>, and the client has
  been sent the \<^verbatim>\<open>connected\<close> acknowledgment only.
\<close>

theorem start_succeeds_without_ready:
  "run route_env
     [ClientMessage (Text start_text), MintSettled 0 (Minted ''tok''), UpstreamOpen 0] =
   \<lparr> readyState = OPEN, isAlive = True, upstream = Some 0, outbox = [Connected],
     pings = 0, terminated = False,
     mints = [\<lparr> body_model = Some (JStr ''m1''), settled = True \<rparr>],
     sockets = [\<lparr> u_readyState = OPEN, u_sent = [SessionUpdate config], token = ''tok'',
                  promise = Resolved, listeners = True \<rparr>] \<rparr>"
  by (simp add: eval_defs)


section \<open>Audio frames\<close>

lemma list_update_neq: "j < length xs \<Longrightarrow> y \<noteq> xs ! j \<Longrightarrow> xs[j := y] \<noteq> xs"
  by (metis nth_list_update_eq)

lemma traffic_start: "traffic (start e msg s) = traffic s"
  by (simp add: start_def traffic_def client_send_def Let_def)

lemma traffic_command: "traffic (command e msg s) = traffic s"
  by (simp add: command_def traffic_start)

lemma forward_audio_open:
  assumes "upstream s = Some j" "upstream_is_open s"
  shows "forward_audio b s =
           s\<lparr>sockets := (sockets s)[j := (sockets s ! j)
                \<lparr>u_sent := u_sent (sockets s ! j) @ [AudioAppend b]\<rparr>]\<rparr>"
  using assms by (simp add: forward_audio_def upstream_is_open_def u_send_def)

lemma forward_audio_not_open: "\<not> upstream_is_open s \<Longrightarrow> forward_audio b s = s"
  by (auto simp add: forward_audio_def upstream_is_open_def split: option.splits)

lemma traffic_forward_audio:
  "traffic (forward_audio b s) \<noteq> traffic s \<longleftrightarrow> upstream_is_open s"
proof (cases "upstream_is_open s")
  case False
  then show ?thesis by (simp add: forward_audio_not_open)
next
  case True
  then obtain j where j: "upstream s = Some j" "j < length (sockets s)"
    by (auto simp add: upstream_is_open_def split: option.splits)
  have "(map u_sent (sockets s))[j := u_sent (sockets s ! j) @ [AudioAppend b]]
          \<noteq> map u_sent (sockets s)"
    using j by (intro list_update_neq) simp_all
  with True j show ?thesis
    by (simp add: forward_audio_open traffic_def map_update)
qed

text \<open>
  A buffer under either server: the custom server reads a buffer whose text parses to a
  value as a command, and every other buffer is audio.
\<close>

lemma onMessage_binary:
  "onMessage e (Binary b) s =
     (if server e = Custom \<and> parses_to_value e b
      then command e (the (JSON_parse e b)) s
      else forward_audio b s)"
  by (cases "server e")
     (simp_all add: onMessage_def onMessage_route_def onMessage_custom_def parses_to_value_def
        Let_def split: option.splits json.splits)

text \<open>
  C3, as the claim states it, fails: under the custom server, with the upstream owned and
  open, the binary frame \<open>1234\<close> (two 16-bit samples whose bytes are ASCII digits) parses
  as JSON, is read as a command and produces no append message.
\<close>

theorem audio_frame_read_as_command:
  \<open>upstream_is_open (run custom_env
     [ClientMessage (Text start_text), MintSettled 0 (Minted ''tok''), UpstreamOpen 0]) \<and>
   traffic (run custom_env
     [ClientMessage (Text start_text), MintSettled 0 (Minted ''tok''), UpstreamOpen 0,
      ClientMessage (Binary ''1234'')]) =
   traffic (run custom_env
     [ClientMessage (Text start_text), MintSettled 0 (Minted ''tok''), UpstreamOpen 0])\<close>
  by (simp add: eval_defs traffic_def)

text \<open>
  C3, amended. A binary frame produces an upstream append message if and only if
  \<^verbatim>\<open>client.upstream\<close> is set and open and, under the custom server, the frame's text does
  not parse to a JSON value. The message produced is one append of that frame on the owned
  socket; a frame that is not forwarded and not read as a command leaves the session as it
  was, so nothing is queued.
\<close>

theorem audio_forwarded_iff:
  "(traffic (step e s (ClientMessage (Binary b))) \<noteq> traffic s \<longleftrightarrow>
      upstream_is_open s \<and> (server e = Custom \<longrightarrow> \<not> parses_to_value e b)) \<and>
   (upstream s = Some j \<and> upstream_is_open s \<and> (server e = Custom \<longrightarrow> \<not> parses_to_value e b) \<longrightarrow>
      step e s (ClientMessage (Binary b)) =
        s\<lparr>sockets := (sockets s)[j := (sockets s ! j)
             \<lparr>u_sent := u_sent (sockets s ! j) @ [AudioAppend b]\<rparr>]\<rparr>) \<and>
   (\<not> upstream_is_open s \<and> (server e = Custom \<longrightarrow> \<not> parses_to_value e b) \<longrightarrow>
      step e s (ClientMessage (Binary b)) = s)"
  by (auto simp add: onMessage_binary traffic_command traffic_forward_audio
      forward_audio_open forward_audio_not_open)

theorem audio_forwarded_iff_witness:
  \<open>traffic (step custom_env (run custom_env
       [ClientMessage (Text start_text), MintSettled 0 (Minted ''tok''), UpstreamOpen 0])
       (ClientMessage (Binary [CHR 0x00, CHR 0x01, CHR 0xFF, CHR 0x7F]))) =
     [[SessionUpdate config, AudioAppend [CHR 0x00, CHR 0x01, CHR 0xFF, CHR 0x7F]]] \<and>
   step custom_env onConnect (ClientMessage (Binary [CHR 0x00, CHR 0x01, CHR 0xFF, CHR 0x7F])) =
     onConnect\<close>
proof -
  let ?s = "run custom_env
       [ClientMessage (Text start_text), MintSettled 0 (Minted ''tok''), UpstreamOpen 0]"
  let ?b = "[CHR 0x00, CHR 0x01, CHR 0xFF, CHR 0x7F]"
  have s: "upstream ?s = Some 0" "upstream_is_open ?s"
    "sockets ?s = [\<lparr> u_readyState = OPEN, u_sent = [SessionUpdate config], token = ''tok'',
                  promise = Resolved, listeners = True \<rparr>]"
    by (simp_all add: eval_defs)
  have p: "\<not> parses_to_value custom_env ?b"
    by (simp add: parses_to_value_def custom_env_def JSON_parse_examples_def)
  have c: "\<not> upstream_is_open onConnect"
    by (simp add: eval_defs)
  from audio_forwarded_iff [of custom_env ?s ?b 0] s p
  have "step custom_env ?s (ClientMessage (Binary ?b)) =
        ?s\<lparr>sockets := (sockets ?s)[0 := (sockets ?s ! 0)
             \<lparr>u_sent := u_sent (sockets ?s ! 0) @ [AudioAppend ?b]\<rparr>]\<rparr>"
    by blast
  then have "traffic (step custom_env ?s (ClientMessage (Binary ?b))) =
      [[SessionUpdate config, AudioAppend ?b]]"
    using s(3) by (simp add: traffic_def)
  moreover from audio_forwarded_iff [of custom_env onConnect ?b 0] c p
  have "step custom_env onConnect (ClientMessage (Binary ?b)) = onConnect"
    by blast
  ultimately show ?thesis by simp
qed

section \<open>Other client messages\<close>

lemma onMessage_text:
  "onMessage e (Text str) s =
     (if is_start_command e str then start e (the (JSON_parse e str)) s else s)"
  by (cases "server e")
     (simp_all add: onMessage_def onMessage_route_def onMessage_custom_def is_start_command_def
        command_def Let_def split: option.splits json.splits)

text \<open>
  A message that reaches the handler as a string and is not a start command (text that
  does not parse, null, or a value whose action is not start) leaves the session exactly
  as it was, under either server.
\<close>

lemma string_message_dropped:
  "\<not> is_start_command e str \<Longrightarrow> step e s (ClientMessage (Text str)) = s"
  by (simp add: onMessage_text)

text \<open>
  A text frame reaches the handler as a buffer. Under the custom server, text that parses
  to a value and is not a start command leaves the session as it was.
\<close>

lemma text_frame_other_command_dropped:
  assumes "server e = Custom" "parses_to_value e str" "\<not> is_start_command e str"
  shows "step e s (ClientMessage (ws_message (TextFrame str))) = s"
  using assms
  by (simp add: onMessage_binary command_def parses_to_value_def is_start_command_def
      split: option.splits json.splits)

text \<open>
  Text that does not parse to a value takes the audio branch: with \<^verbatim>\<open>client.upstream\<close> open
  it is sent upstream as an append message, under either server.
\<close>

lemma text_frame_forwarded:
  assumes "upstream s = Some j" "upstream_is_open s" "\<not> parses_to_value e str"
  shows "step e s (ClientMessage (ws_message (TextFrame str))) =
           s\<lparr>sockets := (sockets s)[j := (sockets s ! j)
                \<lparr>u_sent := u_sent (sockets s ! j) @ [AudioAppend str]\<rparr>]\<rparr>"
  using assms by (simp add: onMessage_binary forward_audio_open)

text \<open>
  C9. The claim: a client payload that is neither a start command nor binary audio, such
  as malformed text, is logged and dropped, leaves the session unchanged and is never
  forwarded upstream. The code at the input of a start command sent as a text frame, whose
  token is minted and whose upstream opens, followed by the text frame \<open>hello\<close>, under the
  custom server: the text is not JSON, the \<^verbatim>\<open>catch\<close> finds a buffer, and \<open>hello\<close> is sent
  upstream as an append message after the configuration.
\<close>

theorem malformed_text_forwarded_as_audio:
  "traffic (run custom_env
     [ClientMessage (ws_message (TextFrame start_text)), MintSettled 0 (Minted ''tok''),
      UpstreamOpen 0, ClientMessage (ws_message (TextFrame ''hello''))]) =
   [[SessionUpdate config, AudioAppend ''hello'']]"
  by (simp add: eval_defs traffic_def)

section \<open>The message translator\<close>

lemma member_type:
  assumes "JSON_parse e data = Some m"
  shows "member m ''type'' = Some (JStr t) \<longleftrightarrow> event_type e data = Some t"
proof (cases m)
  case (JObj fs)
  with assms show ?thesis
    by (cases "map_of fs ''type''")
       (auto simp add: event_type_def split: json.splits)
qed (use assms in \<open>simp_all add: event_type_def\<close>)

lemma member_property:
  assumes "JSON_parse e data = Some m"
  shows "member m k = event_property e data k"
  using assms by (cases m) (simp_all add: event_property_def)

lemma event_type_None: "JSON_parse e data = None \<Longrightarrow> event_type e data = None"
  by (simp add: event_type_def)

lemma event_type_JNull: "JSON_parse e data = Some JNull \<Longrightarrow> event_type e data = None"
  by (simp add: event_type_def)

lemma translate_table:
  "translate e data =
     (if event_type e data = Some ''conversation.item.input_audio_transcription.delta''
      then Some (Partial (event_property e data ''delta'') (event_property e data ''item_id''))
      else if event_type e data = Some ''conversation.item.input_audio_transcription.completed''
      then Some (Final (event_property e data ''transcript'') (event_property e data ''item_id''))
      else if event_type e data = Some ''input_audio_buffer.committed''
      then None
      else if event_type e data = Some ''error''
      then Some (ErrorEvent ''openai_error''
                  (js_or (optional_member (event_property e data ''error'') ''message'')
                         (Some (JStr ''Unknown error''))))
      else Some (Raw data))"
proof (cases "JSON_parse e data")
  case None
  then show ?thesis by (simp add: translate_def event_type_None)
next
  case (Some m)
  show ?thesis
  proof (cases "m = JNull")
    case True
    with Some show ?thesis by (simp add: translate_def event_type_JNull)
  next
    case False
    with Some have "translate e data =
      (if member m ''type'' = Some (JStr ''conversation.item.input_audio_transcription.delta'')
          then Some (Partial (member m ''delta'') (member m ''item_id''))
          else if member m ''type'' =
                    Some (JStr ''conversation.item.input_audio_transcription.completed'')
          then Some (Final (member m ''transcript'') (member m ''item_id''))
          else if member m ''type'' = Some (JStr ''input_audio_buffer.committed'')
          then None
          else if member m ''type'' = Some (JStr ''error'')
          then Some (ErrorEvent ''openai_error''
                       (js_or (optional_member (member m ''error'') ''message'')
                              (Some (JStr ''Unknown error''))))
          else Some (Raw data))"
      by (cases m) (simp_all add: translate_def)
    then have "translate e data =
      (if event_type e data = Some ''conversation.item.input_audio_transcription.delta''
          then Some (Partial (member m ''delta'') (member m ''item_id''))
          else if event_type e data =
                    Some ''conversation.item.input_audio_transcription.completed''
          then Some (Final (member m ''transcript'') (member m ''item_id''))
          else if event_type e data = Some ''input_audio_buffer.committed''
          then None
          else if event_type e data = Some ''error''
          then Some (ErrorEvent ''openai_error''
                       (js_or (optional_member (member m ''error'') ''message'')
                              (Some (JStr ''Unknown error''))))
          else Some (Raw data))"
      by (simp only: member_type [OF Some])
    then show ?thesis
      by (simp only: member_property [OF Some])
  qed
qed

text \<open>
  C4. The upstream message listener, for every payload, sends the client exactly what the
  table says and changes nothing else: a transcription delta gives one partial event with
  the delta as text and the item id; a completed transcription gives one final event with
  the transcript and the item id; a committed buffer gives nothing; an error event gives
  \<^verbatim>\<open>openai_error\<close> with the error's message or \<^verbatim>\<open>Unknown error\<close>; every other payload,
  text that is not JSON included, is forwarded as it came.
\<close>

theorem translation_table:
  assumes "j < length (sockets s)" "listeners (sockets s ! j)" "readyState s = OPEN"
  shows "step e s (UpstreamMessage j data) =
     s\<lparr>outbox := outbox s @
       (if event_type e data = Some ''conversation.item.input_audio_transcription.delta''
        then [Partial (event_property e data ''delta'') (event_property e data ''item_id'')]
        else if event_type e data = Some ''conversation.item.input_audio_transcription.completed''
        then [Final (event_property e data ''transcript'') (event_property e data ''item_id'')]
        else if event_type e data = Some ''input_audio_buffer.committed''
        then []
        else if event_type e data = Some ''error''
        then [ErrorEvent ''openai_error''
                (js_or (optional_member (event_property e data ''error'') ''message'')
                       (Some (JStr ''Unknown error'')))]
        else [Raw data])\<rparr>"
  using assms
  by (simp add: upstreamMessage_def onUpstreamMessage_def translate_table client_send_def)

theorem translation_table_witness:
  \<open>outbox (step route_env
      (run route_env
         [ClientMessage (Text start_text), MintSettled 0 (Minted ''tok''), UpstreamOpen 0])
      (UpstreamMessage 0
         ''{"type":"conversation.item.input_audio_transcription.delta","delta":"hel","item_id":"x1"}''))
   = [Connected, Partial (Some (JStr ''hel'')) (Some (JStr ''x1''))] \<and>
   outbox (step route_env
      (run route_env
         [ClientMessage (Text start_text), MintSettled 0 (Minted ''tok''), UpstreamOpen 0])
      (UpstreamMessage 0 ''pong'')) = [Connected, Raw ''pong'']\<close>
proof -
  let ?s = "run route_env
         [ClientMessage (Text start_text), MintSettled 0 (Minted ''tok''), UpstreamOpen 0]"
  let ?d = \<open>''{"type":"conversation.item.input_audio_transcription.delta","delta":"hel","item_id":"x1"}''\<close>
  have s: "0 < length (sockets ?s)" "listeners (sockets ?s ! 0)" "readyState ?s = OPEN"
    "outbox ?s = [Connected]"
    by (simp_all add: eval_defs)
  have t: "event_type route_env ?d = Some ''conversation.item.input_audio_transcription.delta''"
    "event_property route_env ?d ''delta'' = Some (JStr ''hel'')"
    "event_property route_env ?d ''item_id'' = Some (JStr ''x1'')"
    "event_type route_env ''pong'' = None"
    by (simp_all add: event_type_def event_property_def route_env_def JSON_parse_examples_def)
  show ?thesis
    using translation_table [OF s(1-3), of route_env ?d]
      translation_table [OF s(1-3), of route_env "''pong''"]
    by (simp add: t s(4))
qed


section \<open>Closing either side\<close>

lemma owned_socket:
  assumes "session_ok s" "upstream s = Some j"
  shows "j < length (sockets s)" "listeners (sockets s ! j)" "promise (sockets s ! j) = Resolved"
proof -
  from assms show j: "j < length (sockets s)" and l: "listeners (sockets s ! j)"
    by (simp_all add: session_ok_def)
  from assms j have "socket_ok (sockets s ! j)"
    by (simp add: session_ok_def list_all_nth)
  with l show "promise (sockets s ! j) = Resolved"
    by (cases "promise (sockets s ! j)") (simp_all add: socket_ok_def)
qed

lemma connecting_socket:
  assumes "session_ok s" "j < length (sockets s)" "u_readyState (sockets s ! j) = CONNECTING"
  shows "promise (sockets s ! j) = Pending" "\<not> listeners (sockets s ! j)"
proof -
  from assms have "socket_ok (sockets s ! j)"
    by (simp add: session_ok_def list_all_nth)
  with assms(3) show "promise (sockets s ! j) = Pending" "\<not> listeners (sockets s ! j)"
    by (cases "promise (sockets s ! j)"; simp add: socket_ok_def)+
qed

lemma client_close_closes_upstream:
  assumes "upstream s = Some j" "j < length (sockets s)" "u_readyState (sockets s ! j) = OPEN"
  shows "u_readyState (sockets (onClientClose (s\<lparr>readyState := r\<rparr>)) ! j) = CLOSING"
  using assms by (simp add: onClientClose_def)

lemma upstream_close_closes_client:
  assumes "j < length (sockets s)" "listeners (sockets s ! j)"
  shows "upstreamClose j s =
           s\<lparr>sockets := (sockets s)[j := (sockets s ! j)\<lparr>u_readyState := CLOSED\<rparr>],
             readyState := (if readyState s = OPEN then CLOSING else readyState s),
             upstream := None\<rparr>"
  using assms by (simp add: upstreamClose_def onUpstreamClose_def Let_def)

lemma upstream_error_closes_client:
  assumes "j < length (sockets s)" "listeners (sockets s ! j)"
    "promise (sockets s ! j) = Resolved"
  shows "upstream (upstreamError j err s) = None"
    "readyState (upstreamError j err s) = (if readyState s = OPEN then CLOSING else readyState s)"
    "outbox (upstreamError j err s) =
       (if readyState s = OPEN
        then outbox s @ [ErrorEvent ''openai_connection_failed'' (Some (JStr err))]
        else outbox s)"
  using assms
  by (simp_all add: upstreamError_def onUpstreamError_def client_send_def Let_def)

text \<open>
  C5. In every session, whatever happened before: when \<^verbatim>\<open>client.upstream\<close> is set and open,
  the client's close and the client's error each leave that upstream closing, in the same
  step; and when the upstream that \<^verbatim>\<open>client.upstream\<close> refers to closes or errors, the
  reference is cleared in the same step and a client that is open is closed, after one
  \<^verbatim>\<open>openai_connection_failed\<close> event on the error path and after no event on the close path.
\<close>

theorem closure_symmetric:
  assumes "s = run e evs" "upstream s = Some j"
  shows "(u_readyState (sockets s ! j) = OPEN \<longrightarrow>
            u_readyState (sockets (step e s ClientClose) ! j) = CLOSING \<and>
            u_readyState (sockets (step e s ClientError) ! j) = CLOSING) \<and>
         upstream (step e s (UpstreamClose j)) = None \<and>
         upstream (step e s (UpstreamError j err)) = None \<and>
         (readyState s = OPEN \<longrightarrow>
            readyState (step e s (UpstreamClose j)) = CLOSING \<and>
            outbox (step e s (UpstreamClose j)) = outbox s \<and>
            readyState (step e s (UpstreamError j err)) = CLOSING \<and>
            outbox (step e s (UpstreamError j err)) =
              outbox s @ [ErrorEvent ''openai_connection_failed'' (Some (JStr err))])"
proof -
  from assms(1) have ok: "session_ok s" by (simp add: run_ok)
  note o = owned_socket [OF ok assms(2)]
  show ?thesis
    using assms(2) o(1)
    by (simp add: client_close_closes_upstream upstream_close_closes_client [OF o(1,2)]
        upstream_error_closes_client [OF o])
qed

theorem closure_symmetric_witness:
  "u_readyState (sockets (run route_env
     [ClientMessage (Text start_text), MintSettled 0 (Minted ''tok''), UpstreamOpen 0,
      ClientClose]) ! 0) = CLOSING \<and>
   outbox (run route_env
     [ClientMessage (Text start_text), MintSettled 0 (Minted ''tok''), UpstreamOpen 0,
      UpstreamError 0 ''reset'']) =
     [Connected, ErrorEvent ''openai_connection_failed'' (Some (JStr ''reset''))] \<and>
   readyState (run route_env
     [ClientMessage (Text start_text), MintSettled 0 (Minted ''tok''), UpstreamOpen 0,
      UpstreamError 0 ''reset'']) = CLOSING \<and>
   upstream (run route_env
     [ClientMessage (Text start_text), MintSettled 0 (Minted ''tok''), UpstreamOpen 0,
      UpstreamClose 0]) = None"
proof -
  let ?evs = "[ClientMessage (Text start_text), MintSettled 0 (Minted ''tok''), UpstreamOpen 0]"
  let ?s = "run route_env ?evs"
  have s: "upstream ?s = Some 0" "u_readyState (sockets ?s ! 0) = OPEN" "readyState ?s = OPEN"
    "outbox ?s = [Connected]"
    by (simp_all add: eval_defs)
  have r: "run route_env (?evs @ [ev]) = step route_env ?s ev" for ev
    by (simp add: run_def)
  from closure_symmetric [OF refl s(1), of "''reset''"] s(2-4)
  have "u_readyState (sockets (step route_env ?s ClientClose) ! 0) = CLOSING \<and>
        outbox (step route_env ?s (UpstreamError 0 ''reset'')) =
          [Connected, ErrorEvent ''openai_connection_failed'' (Some (JStr ''reset''))] \<and>
        readyState (step route_env ?s (UpstreamError 0 ''reset'')) = CLOSING \<and>
        upstream (step route_env ?s (UpstreamClose 0)) = None"
    by simp
  then show ?thesis
    using r [of ClientClose] r [of "UpstreamError 0 ''reset''"] r [of "UpstreamClose 0"]
    by simp
qed


section \<open>Setup failures\<close>

lemma start_accepted:
  assumes "\<not> upstream_is_open s" "is_start_command e str"
  shows "outbox (step e s (ClientMessage (Text str))) = outbox s"
    "map settled (mints (step e s (ClientMessage (Text str)))) = map settled (mints s) @ [False]"
  using assms by (simp_all add: onMessage_text start_def Let_def)

lemma mint_failure:
  assumes "i < length (mints s)" "\<not> settled (mints s ! i)" "mintEphemeralToken a = Inl err"
    "readyState s = OPEN"
  shows "mintSettled i a s =
           s\<lparr>mints := (mints s)[i := (mints s ! i)\<lparr>settled := True\<rparr>],
             outbox := outbox s @ [ErrorEvent ''upstream_setup_failed'' (Some (JStr err))]\<rparr>"
  using assms by (simp add: mintSettled_def client_send_def Let_def)

lemma mint_settled_again:
  assumes "i < length (mints s)" "settled (mints s ! i)"
  shows "mintSettled i a s = s"
  using assms by (simp add: mintSettled_def)

lemma upstream_is_open_fields:
  "upstream s' = upstream s \<Longrightarrow> sockets s' = sockets s \<Longrightarrow>
     upstream_is_open s' = upstream_is_open s"
  by (simp add: upstream_is_open_def split: option.splits)

lemma open_failure:
  assumes "j < length (sockets s)" "promise (sockets s ! j) = Pending"
    "\<not> listeners (sockets s ! j)" "readyState s = OPEN"
  shows "upstreamError j err s =
           s\<lparr>sockets := (sockets s)[j := (sockets s ! j)
                 \<lparr>u_readyState := ws_fail (u_readyState (sockets s ! j)),
                  promise := Rejected\<rparr>],
             outbox := outbox s @ [ErrorEvent ''upstream_setup_failed'' (Some (JStr err))]\<rparr>"
  using assms by (simp add: upstreamError_def client_send_def Let_def)

lemma rejected_socket_silent:
  assumes "j < length (sockets s)" "promise (sockets s ! j) = Rejected"
    "\<not> listeners (sockets s ! j)"
  shows "outbox (upstreamError j err s) = outbox s" "outbox (upstreamClose j s) = outbox s"
  using assms by (simp_all add: upstreamError_def upstreamClose_def Let_def)

text \<open>
  C6. In every session whose client is open and which has no open upstream, for every
  start command text: when a pending token request fails, the client is sent exactly one
  \<^verbatim>\<open>upstream_setup_failed\<close> event with the error's message, \<^verbatim>\<open>client.upstream\<close> and the
  sockets are as before, the request settling again does nothing, and a following start
  command is not rejected but posts a new token request; when a connecting upstream
  errors, the client is sent exactly one \<^verbatim>\<open>upstream_setup_failed\<close> event, the failed socket
  is closing with its promise rejected and is not \<^verbatim>\<open>client.upstream\<close>, its later error and
  close events send the client nothing, and a following start command posts a new token
  request.
\<close>

theorem setup_failure_reported_once:
  assumes "s = run e evs" "readyState s = OPEN" "\<not> upstream_is_open s"
    "is_start_command e str"
  shows
    "(i < length (mints s) \<and> \<not> settled (mints s ! i) \<and> mintEphemeralToken a = Inl err \<longrightarrow>
        outbox (step e s (MintSettled i a)) =
          outbox s @ [ErrorEvent ''upstream_setup_failed'' (Some (JStr err))] \<and>
        upstream (step e s (MintSettled i a)) = upstream s \<and>
        sockets (step e s (MintSettled i a)) = sockets s \<and>
        step e (step e s (MintSettled i a)) (MintSettled i a') = step e s (MintSettled i a) \<and>
        outbox (step e (step e s (MintSettled i a)) (ClientMessage (Text str))) =
          outbox (step e s (MintSettled i a)) \<and>
        map settled (mints (step e (step e s (MintSettled i a)) (ClientMessage (Text str)))) =
          map settled (mints (step e s (MintSettled i a))) @ [False]) \<and>
     (j < length (sockets s) \<and> u_readyState (sockets s ! j) = CONNECTING \<longrightarrow>
        outbox (step e s (UpstreamError j err)) =
          outbox s @ [ErrorEvent ''upstream_setup_failed'' (Some (JStr err))] \<and>
        upstream (step e s (UpstreamError j err)) = upstream s \<and>
        upstream s \<noteq> Some j \<and>
        u_readyState (sockets (step e s (UpstreamError j err)) ! j) = CLOSING \<and>
        promise (sockets (step e s (UpstreamError j err)) ! j) = Rejected \<and>
        outbox (step e (step e s (UpstreamError j err)) (UpstreamError j err')) =
          outbox (step e s (UpstreamError j err)) \<and>
        outbox (step e (step e s (UpstreamError j err)) (UpstreamClose j)) =
          outbox (step e s (UpstreamError j err)) \<and>
        outbox (step e (step e s (UpstreamError j err)) (ClientMessage (Text str))) =
          outbox (step e s (UpstreamError j err)) \<and>
        map settled (mints (step e (step e s (UpstreamError j err)) (ClientMessage (Text str)))) =
          map settled (mints (step e s (UpstreamError j err))) @ [False])"
proof (intro conjI impI)
  assume h: "i < length (mints s) \<and> \<not> settled (mints s ! i) \<and> mintEphemeralToken a = Inl err"
  define s' where "s' = step e s (MintSettled i a)"
  have s': "s' = s\<lparr>mints := (mints s)[i := (mints s ! i)\<lparr>settled := True\<rparr>],
             outbox := outbox s @ [ErrorEvent ''upstream_setup_failed'' (Some (JStr err))]\<rparr>"
    using h assms(2) by (simp add: s'_def mint_failure)
  have no: "\<not> upstream_is_open s'"
    using assms(3) upstream_is_open_fields [of s' s] by (simp add: s')
  show "outbox (step e s (MintSettled i a)) =
          outbox s @ [ErrorEvent ''upstream_setup_failed'' (Some (JStr err))]"
    "upstream (step e s (MintSettled i a)) = upstream s"
    "sockets (step e s (MintSettled i a)) = sockets s"
    unfolding s'_def [symmetric] by (simp_all add: s')
  show "step e (step e s (MintSettled i a)) (MintSettled i a') = step e s (MintSettled i a)"
    unfolding s'_def [symmetric] using h by (simp add: mint_settled_again s')
  show "outbox (step e (step e s (MintSettled i a)) (ClientMessage (Text str))) =
          outbox (step e s (MintSettled i a))"
    "map settled (mints (step e (step e s (MintSettled i a)) (ClientMessage (Text str)))) =
          map settled (mints (step e s (MintSettled i a))) @ [False]"
    unfolding s'_def [symmetric] by (rule start_accepted [OF no assms(4)])+
next
  assume h: "j < length (sockets s) \<and> u_readyState (sockets s ! j) = CONNECTING"
  from assms(1) have ok: "session_ok s" by (simp add: run_ok)
  from h have j: "j < length (sockets s)" and c: "u_readyState (sockets s ! j) = CONNECTING"
    by simp_all
  note p = connecting_socket [OF ok j c]
  define s' where "s' = step e s (UpstreamError j err)"
  have s': "s' = s\<lparr>sockets := (sockets s)[j := (sockets s ! j)
                 \<lparr>u_readyState := ws_fail (u_readyState (sockets s ! j)),
                  promise := Rejected\<rparr>],
             outbox := outbox s @ [ErrorEvent ''upstream_setup_failed'' (Some (JStr err))]\<rparr>"
    using j p assms(2) by (simp add: s'_def open_failure)
  show u: "upstream s \<noteq> Some j"
    using owned_socket(2) [OF ok] p(2) by blast
  have no: "\<not> upstream_is_open s'"
    using assms(3) u by (auto simp add: s' upstream_is_open_def split: option.splits)
  show "outbox (step e s (UpstreamError j err)) =
          outbox s @ [ErrorEvent ''upstream_setup_failed'' (Some (JStr err))]"
    "upstream (step e s (UpstreamError j err)) = upstream s"
    "u_readyState (sockets (step e s (UpstreamError j err)) ! j) = CLOSING"
    "promise (sockets (step e s (UpstreamError j err)) ! j) = Rejected"
    unfolding s'_def [symmetric] using j c by (simp_all add: s')
  have r: "j < length (sockets s')" "promise (sockets s' ! j) = Rejected"
    "\<not> listeners (sockets s' ! j)"
    using j p by (simp_all add: s')
  show "outbox (step e (step e s (UpstreamError j err)) (UpstreamError j err')) =
          outbox (step e s (UpstreamError j err))"
    "outbox (step e (step e s (UpstreamError j err)) (UpstreamClose j)) =
          outbox (step e s (UpstreamError j err))"
    unfolding s'_def [symmetric] by (simp_all add: rejected_socket_silent [OF r])
  show "outbox (step e (step e s (UpstreamError j err)) (ClientMessage (Text str))) =
          outbox (step e s (UpstreamError j err))"
    "map settled (mints (step e (step e s (UpstreamError j err)) (ClientMessage (Text str)))) =
          map settled (mints (step e s (UpstreamError j err))) @ [False]"
    unfolding s'_def [symmetric] by (rule start_accepted [OF no assms(4)])+
qed


theorem setup_failure_reported_once_witness:
  "outbox (run route_env [ClientMessage (Text start_text), MintSettled 0 (NotOk ''Unauthorized'')])
     = [Connected, ErrorEvent ''upstream_setup_failed''
          (Some (JStr ''Failed to mint token: Failed to mint token: Unauthorized''))] \<and>
   upstream (run route_env
     [ClientMessage (Text start_text), MintSettled 0 (NotOk ''Unauthorized'')]) = None \<and>
   map settled (mints (run route_env
     [ClientMessage (Text start_text), MintSettled 0 (NotOk ''Unauthorized''),
      ClientMessage (Text start_text)])) = [True, False] \<and>
   outbox (run route_env
     [ClientMessage (Text start_text), MintSettled 0 (Minted ''tok''),
      UpstreamError 0 ''ECONNREFUSED''])
     = [Connected, ErrorEvent ''upstream_setup_failed'' (Some (JStr ''ECONNREFUSED''))] \<and>
   upstream (run route_env
     [ClientMessage (Text start_text), MintSettled 0 (Minted ''tok''),
      UpstreamError 0 ''ECONNREFUSED'']) = None \<and>
   map settled (mints (run route_env
     [ClientMessage (Text start_text), MintSettled 0 (Minted ''tok''),
      UpstreamError 0 ''ECONNREFUSED'', ClientMessage (Text start_text)])) = [True, False]"
proof -
  let ?m = "[ClientMessage (Text start_text)]"
  let ?s = "run route_env ?m"
  let ?o = "[ClientMessage (Text start_text), MintSettled 0 (Minted ''tok'')]"
  let ?t = "run route_env ?o"
  let ?err = "''Failed to mint token: Failed to mint token: Unauthorized''"
  have c: "is_start_command route_env start_text"
    by (simp add: is_start_command_def route_env_def JSON_parse_examples_def start_text_def)
  have s: "readyState ?s = OPEN" "\<not> upstream_is_open ?s" "outbox ?s = [Connected]"
    "upstream ?s = None" "map settled (mints ?s) = [False]"
    "0 < length (mints ?s) \<and> \<not> settled (mints ?s ! 0) \<and>
       mintEphemeralToken (NotOk ''Unauthorized'') = Inl ?err"
    by (simp_all add: eval_defs)
  have t: "readyState ?t = OPEN" "\<not> upstream_is_open ?t" "outbox ?t = [Connected]"
    "upstream ?t = None" "map settled (mints ?t) = [True]"
    "0 < length (sockets ?t) \<and> u_readyState (sockets ?t ! 0) = CONNECTING"
    by (simp_all add: eval_defs)
  have m: "mints (step route_env ?s (MintSettled 0 (NotOk ''Unauthorized''))) =
             (mints ?s)[0 := (mints ?s ! 0)\<lparr>settled := True\<rparr>]"
    using s(1,6) by (simp add: mint_failure)
  have e: "mints (step route_env ?t (UpstreamError 0 ''ECONNREFUSED'')) = mints ?t"
    by (simp add: upstreamError_def client_send_def onUpstreamError_def Let_def)
  have r: "run route_env (?m @ [ev]) = step route_env ?s ev"
    "run route_env (?m @ [ev, ev']) = step route_env (step route_env ?s ev) ev'"
    "run route_env (?o @ [ev]) = step route_env ?t ev"
    "run route_env (?o @ [ev, ev']) = step route_env (step route_env ?t ev) ev'" for ev ev'
    by (simp_all add: run_def)
  from setup_failure_reported_once
         [OF refl s(1,2) c, of 0 "NotOk ''Unauthorized''" ?err _ 0 _] s(3-6) m
  have "outbox (step route_env ?s (MintSettled 0 (NotOk ''Unauthorized''))) =
          [Connected, ErrorEvent ''upstream_setup_failed'' (Some (JStr ?err))] \<and>
        upstream (step route_env ?s (MintSettled 0 (NotOk ''Unauthorized''))) = None \<and>
        map settled (mints (step route_env
            (step route_env ?s (MintSettled 0 (NotOk ''Unauthorized'')))
            (ClientMessage (Text start_text)))) = [True, False]"
    by (simp add: map_update)
  moreover
  from setup_failure_reported_once
         [OF refl t(1,2) c, of 0 "NotOk ''Unauthorized''" "''ECONNREFUSED''" _ 0 _] t(3-6) e
  have "outbox (step route_env ?t (UpstreamError 0 ''ECONNREFUSED'')) =
          [Connected, ErrorEvent ''upstream_setup_failed'' (Some (JStr ''ECONNREFUSED''))] \<and>
        upstream (step route_env ?t (UpstreamError 0 ''ECONNREFUSED'')) = None \<and>
        map settled (mints (step route_env
            (step route_env ?t (UpstreamError 0 ''ECONNREFUSED''))
            (ClientMessage (Text start_text)))) = [True, False]"
    by simp
  ultimately show ?thesis
    using r(1) [of "MintSettled 0 (NotOk ''Unauthorized'')"]
      r(2) [of "MintSettled 0 (NotOk ''Unauthorized'')" "ClientMessage (Text start_text)"]
      r(3) [of "UpstreamError 0 ''ECONNREFUSED''"]
      r(4) [of "UpstreamError 0 ''ECONNREFUSED''" "ClientMessage (Text start_text)"]
    by simp
qed


section \<open>The liveness monitor\<close>

lemma same_liveness_refl: "same_liveness s s"
  by (simp add: same_liveness_def)

lemma same_liveness_client_send: "same_liveness s (client_send ev s)"
  by (simp add: same_liveness_def client_send_def)

lemma same_liveness_start: "same_liveness s (start e msg s)"
  by (simp add: same_liveness_def start_def client_send_def Let_def)

lemma same_liveness_command: "same_liveness s (command e msg s)"
  by (simp add: command_def same_liveness_start same_liveness_refl)

lemma same_liveness_forward_audio: "same_liveness s (forward_audio b s)"
  by (simp add: same_liveness_def forward_audio_def split: option.splits)

lemma same_liveness_onMessage: "same_liveness s (onMessage e m s)"
  by (cases m)
     (simp_all add: onMessage_text onMessage_binary same_liveness_start same_liveness_command
        same_liveness_forward_audio same_liveness_refl)

lemma same_liveness_onClientClose:
  "same_liveness s (onClientClose (s\<lparr>readyState := ws_fail (readyState s)\<rparr>))"
  by (cases "readyState s")
     (simp_all add: same_liveness_def onClientClose_def split: option.splits)

lemma same_liveness_mintSettled: "same_liveness s (mintSettled i a s)"
  by (simp add: same_liveness_def mintSettled_def client_send_def Let_def split: sum.splits)

lemma same_liveness_upstreamOpen: "same_liveness s (upstreamOpen j s)"
  by (simp add: same_liveness_def upstreamOpen_def client_send_def Let_def)

lemma same_liveness_upstreamMessage: "same_liveness s (upstreamMessage e j data s)"
  by (simp add: same_liveness_def upstreamMessage_def onUpstreamMessage_def client_send_def
      split: option.splits)

lemma same_liveness_upstreamClose: "same_liveness s (upstreamClose j s)"
  by (simp add: same_liveness_def upstreamClose_def onUpstreamClose_def Let_def)

lemma same_liveness_upstreamError: "same_liveness s (upstreamError j err s)"
  by (simp add: same_liveness_def upstreamError_def onUpstreamError_def client_send_def Let_def)

lemma same_liveness_step:
  assumes "ev \<noteq> ClientPong" "ev \<noteq> HeartbeatTick" "ev \<noteq> ClientClose"
  shows "same_liveness s (step e s ev)"
  using assms
  by (cases ev)
     (simp_all add: same_liveness_onMessage same_liveness_onClientClose
        same_liveness_mintSettled same_liveness_upstreamOpen same_liveness_upstreamMessage
        same_liveness_upstreamClose same_liveness_upstreamError)

lemma never_answering:
  assumes "readyState s \<noteq> CLOSED" "ClientClose \<notin> set evs" "ClientPong \<notin> set evs"
  shows "terminated (foldl (step e) s evs) \<longleftrightarrow>
           terminated s \<or> (if isAlive s then 2 else 1) \<le> count_list evs HeartbeatTick"
  using assms
proof (induction evs arbitrary: s)
  case Nil
  then show ?case by simp
next
  case (Cons ev evs)
  show ?case
  proof (cases "ev = HeartbeatTick")
    case True
    have "readyState (heartbeat s) \<noteq> CLOSED"
      using Cons.prems(1) by (cases "readyState s") (simp_all add: heartbeat_def)
    with Cons.prems have "terminated (foldl (step e) (heartbeat s) evs) \<longleftrightarrow>
        terminated (heartbeat s) \<or>
        (if isAlive (heartbeat s) then 2 else 1) \<le> count_list evs HeartbeatTick"
      by (intro Cons.IH) simp_all
    with True Cons.prems(1) show ?thesis
      by (auto simp add: heartbeat_def)
  next
    case False
    with Cons.prems have l: "same_liveness s (step e s ev)"
      by (intro same_liveness_step) auto
    with Cons.prems have "terminated (foldl (step e) (step e s ev) evs) \<longleftrightarrow>
        terminated (step e s ev) \<or>
        (if isAlive (step e s ev) then 2 else 1) \<le> count_list evs HeartbeatTick"
      by (intro Cons.IH) (simp_all add: same_liveness_def)
    with l False show ?thesis
      by (simp add: same_liveness_def)
  qed
qed

lemma always_answering:
  assumes "answers_pings u evs" "\<not> terminated s" "\<not> u \<longrightarrow> isAlive s"
  shows "\<not> terminated (foldl (step e) s evs)"
  using assms
proof (induction evs arbitrary: s u)
  case Nil
  then show ?case by simp
next
  case (Cons ev evs)
  show ?case
  proof (cases ev)
    case HeartbeatTick
    with Cons.prems have u: "\<not> u" "answers_pings True evs" "isAlive s" by simp_all
    have "\<not> terminated (foldl (step e) (step e s HeartbeatTick) evs)"
      using u(2)
    proof (rule Cons.IH)
      show "\<not> terminated (step e s HeartbeatTick)"
        using Cons.prems(2) u(3) by (simp add: heartbeat_def)
    qed simp
    with HeartbeatTick show ?thesis by simp
  next
    case ClientPong
    with Cons.prems have "answers_pings False evs" by simp
    then have "\<not> terminated (foldl (step e) (step e s ClientPong) evs)"
      by (rule Cons.IH) (use Cons.prems(2) in simp_all)
    with ClientPong show ?thesis by simp
  next
    case ClientClose
    with Cons.prems have "answers_pings u evs" by simp
    then have "\<not> terminated (foldl (step e) (step e s ClientClose) evs)"
      by (rule Cons.IH)
         (use Cons.prems(2,3) in \<open>simp_all add: onClientClose_def split: option.splits\<close>)
    with ClientClose show ?thesis by simp
  qed (use Cons same_liveness_step [of ev s e] in \<open>auto simp add: same_liveness_def\<close>)
qed

text \<open>
  C7. Time is counted in heartbeats. A connection that stays connected and never sends a
  pong is terminated by the second heartbeat after it connected and not before: it has
  been terminated exactly when two or more heartbeats have passed. A connection that
  answers every heartbeat's ping with a pong before the next heartbeat is never
  terminated, whatever else happens in the session.
\<close>

theorem liveness_monitor:
  "(ClientClose \<notin> set evs \<and> ClientPong \<notin> set evs \<longrightarrow>
      (terminated (run e evs) \<longleftrightarrow> 2 \<le> count_list evs HeartbeatTick)) \<and>
   (answers_pings False evs \<longrightarrow> \<not> terminated (run e evs))"
proof (intro conjI impI)
  assume "ClientClose \<notin> set evs \<and> ClientPong \<notin> set evs"
  then show "terminated (run e evs) \<longleftrightarrow> 2 \<le> count_list evs HeartbeatTick"
    using never_answering [of onConnect evs e] by (simp add: run_def onConnect_def)
next
  assume "answers_pings False evs"
  then show "\<not> terminated (run e evs)"
    unfolding run_def by (rule always_answering) (simp_all add: onConnect_def)
qed

theorem liveness_monitor_witness:
  "\<not> terminated (run route_env [HeartbeatTick, ClientMessage (Binary ''ab'')]) \<and>
   terminated (run route_env [HeartbeatTick, ClientMessage (Binary ''ab''), HeartbeatTick]) \<and>
   \<not> terminated (run route_env
        [HeartbeatTick, ClientPong, HeartbeatTick, ClientPong, HeartbeatTick])"
  using liveness_monitor [of "[HeartbeatTick, ClientMessage (Binary ''ab'')]" route_env]
    liveness_monitor [of "[HeartbeatTick, ClientMessage (Binary ''ab''), HeartbeatTick]" route_env]
    liveness_monitor [of "[HeartbeatTick, ClientPong, HeartbeatTick, ClientPong, HeartbeatTick]"
      route_env]
  by simp


section \<open>The upstream connector\<close>

lemma resolved_socket_sent:
  assumes "session_ok s" "j < length (sockets s)" "promise (sockets s ! j) = Resolved"
  shows "\<exists>ms. u_sent (sockets s ! j) = SessionUpdate config # ms \<and> list_all is_append ms"
proof -
  from assms have "socket_ok (sockets s ! j)"
    by (simp add: session_ok_def list_all_nth)
  with assms(3) show ?thesis
    by (cases "u_sent (sockets s ! j)") (simp_all add: socket_ok_def)
qed

lemma unresolved_socket_sent:
  assumes "session_ok s" "j < length (sockets s)" "promise (sockets s ! j) \<noteq> Resolved"
  shows "u_sent (sockets s ! j) = []"
proof -
  from assms have "socket_ok (sockets s ! j)"
    by (simp add: session_ok_def list_all_nth)
  with assms(3) show ?thesis
    by (cases "promise (sockets s ! j)") (simp_all add: socket_ok_def)
qed

lemma upstreamOpen_pending:
  assumes "j < length (sockets s)" "u_readyState (sockets s ! j) = CONNECTING"
    "promise (sockets s ! j) = Pending" "\<not> listeners (sockets s ! j)"
    "u_sent (sockets s ! j) = []"
  shows "upstream (upstreamOpen j s) = Some j"
    "promise (sockets (upstreamOpen j s) ! j) = Resolved"
    "u_sent (sockets (upstreamOpen j s) ! j) = [SessionUpdate config]"
    "u_readyState (sockets (upstreamOpen j s) ! j) = OPEN"
  using assms by (simp_all add: upstreamOpen_def u_send_def Let_def)

lemma upstreamError_pending:
  assumes "j < length (sockets s)" "promise (sockets s ! j) = Pending"
  shows "promise (sockets (upstreamError j err s) ! j) = Rejected"
  using assms
  by (simp add: upstreamError_def onUpstreamError_def client_send_def Let_def)

text \<open>
  C8. In every session and for every upstream socket of it: a resolved promise means the
  configuration message was sent on the socket, as the first message; a promise that is
  not resolved means nothing was sent. A connecting socket has a pending promise; its open
  event sends the configuration and resolves, in that order within the one listener; its
  error event rejects the promise and nothing is sent. The configuration names pcm16
  audio, the transcription model, server-side voice activity detection and the near-field
  noise reduction.
\<close>

theorem open_resolves_after_configuration:
  assumes "s = run e evs" "j < length (sockets s)"
  shows "(promise (sockets s ! j) = Resolved \<longrightarrow>
            (\<exists>ms. u_sent (sockets s ! j) = SessionUpdate config # ms)) \<and>
         (promise (sockets s ! j) \<noteq> Resolved \<longrightarrow> u_sent (sockets s ! j) = []) \<and>
         (u_readyState (sockets s ! j) = CONNECTING \<longrightarrow>
            promise (sockets s ! j) = Pending \<and>
            promise (sockets (step e s (UpstreamOpen j)) ! j) = Resolved \<and>
            u_sent (sockets (step e s (UpstreamOpen j)) ! j) = [SessionUpdate config] \<and>
            promise (sockets (step e s (UpstreamError j err)) ! j) = Rejected \<and>
            u_sent (sockets (step e s (UpstreamError j err)) ! j) = []) \<and>
         input_audio_format config = ''pcm16'' \<and>
         transcription_model config = ''gpt-4o-transcribe'' \<and>
         turn_detection_type config = ''server_vad'' \<and>
         noise_reduction_type config = ''near_field''"
proof -
  from assms(1) have ok: "session_ok s" by (simp add: run_ok)
  have ok': "session_ok (step e s (UpstreamError j err))" using ok by (rule step_ok)
  have len: "length (sockets (upstreamError j err s)) = length (sockets s)"
    by (simp add: upstreamError_def onUpstreamError_def client_send_def Let_def)
  have a: "promise (sockets s ! j) = Resolved \<longrightarrow>
            (\<exists>ms. u_sent (sockets s ! j) = SessionUpdate config # ms)"
    using resolved_socket_sent [OF ok assms(2)] by blast
  have b: "promise (sockets s ! j) \<noteq> Resolved \<longrightarrow> u_sent (sockets s ! j) = []"
    using unresolved_socket_sent [OF ok assms(2)] by blast
  have c: "u_readyState (sockets s ! j) = CONNECTING \<longrightarrow>
            promise (sockets s ! j) = Pending \<and>
            promise (sockets (step e s (UpstreamOpen j)) ! j) = Resolved \<and>
            u_sent (sockets (step e s (UpstreamOpen j)) ! j) = [SessionUpdate config] \<and>
            promise (sockets (step e s (UpstreamError j err)) ! j) = Rejected \<and>
            u_sent (sockets (step e s (UpstreamError j err)) ! j) = []"
  proof
    assume c: "u_readyState (sockets s ! j) = CONNECTING"
    note p = connecting_socket [OF ok assms(2) c]
    from p(1) b have u: "u_sent (sockets s ! j) = []" by simp
    have r: "promise (sockets (step e s (UpstreamError j err)) ! j) = Rejected"
      using upstreamError_pending [OF assms(2) p(1)] by simp
    then have "u_sent (sockets (step e s (UpstreamError j err)) ! j) = []"
      using unresolved_socket_sent [OF ok'] assms(2) len by simp
    with r p upstreamOpen_pending [OF assms(2) c p u] show
      "promise (sockets s ! j) = Pending \<and>
            promise (sockets (step e s (UpstreamOpen j)) ! j) = Resolved \<and>
            u_sent (sockets (step e s (UpstreamOpen j)) ! j) = [SessionUpdate config] \<and>
            promise (sockets (step e s (UpstreamError j err)) ! j) = Rejected \<and>
            u_sent (sockets (step e s (UpstreamError j err)) ! j) = []"
      by simp
  qed
  from a b c show ?thesis by (simp add: config_def)
qed

theorem open_resolves_after_configuration_witness:
  "promise (sockets (run route_env
      [ClientMessage (Text start_text), MintSettled 0 (Minted ''tok''), UpstreamOpen 0]) ! 0)
     = Resolved \<and>
   u_sent (sockets (run route_env
      [ClientMessage (Text start_text), MintSettled 0 (Minted ''tok''), UpstreamOpen 0]) ! 0)
     = [SessionUpdate config] \<and>
   promise (sockets (run route_env
      [ClientMessage (Text start_text), MintSettled 0 (Minted ''tok''),
       UpstreamError 0 ''ECONNREFUSED'']) ! 0) = Rejected"
proof -
  let ?o = "[ClientMessage (Text start_text), MintSettled 0 (Minted ''tok'')]"
  let ?t = "run route_env ?o"
  have t: "0 < length (sockets ?t)" "u_readyState (sockets ?t ! 0) = CONNECTING"
    by (simp_all add: eval_defs)
  have r: "run route_env (?o @ [ev]) = step route_env ?t ev" for ev
    by (simp add: run_def)
  from open_resolves_after_configuration [OF refl t(1), of "''ECONNREFUSED''"] t(2)
  have "promise (sockets (step route_env ?t (UpstreamOpen 0)) ! 0) = Resolved \<and>
        u_sent (sockets (step route_env ?t (UpstreamOpen 0)) ! 0) = [SessionUpdate config] \<and>
        promise (sockets (step route_env ?t (UpstreamError 0 ''ECONNREFUSED'')) ! 0) = Rejected"
    by simp
  then show ?thesis
    using r [of "UpstreamOpen 0"] r [of "UpstreamError 0 ''ECONNREFUSED''"] by simp
qed



section \<open>Language and model of a start command\<close>

lemma configuration_in_sent:
  assumes "session_ok s" "j < length (sockets s)" "SessionUpdate c \<in> set (u_sent (sockets s ! j))"
  shows "c = config"
proof (cases "promise (sockets s ! j) = Resolved")
  case False
  with unresolved_socket_sent [OF assms(1,2)] assms(3) show ?thesis by simp
next
  case True
  from resolved_socket_sent [OF assms(1,2) True] obtain ms
    where ms: "u_sent (sockets s ! j) = SessionUpdate config # ms" "list_all is_append ms"
    by blast
  from ms(2) have "SessionUpdate c \<notin> set ms"
    by (auto simp add: list_all_iff is_append_def)
  with ms(1) assms(3) show ?thesis by simp
qed

lemma start_posts_model:
  assumes "\<not> upstream_is_open s"
  shows "start e msg s =
     s\<lparr>mints := mints s @
          [\<lparr> body_model = Some (case member msg ''model'' of
                                   None \<Rightarrow> default_model e
                                 | Some v \<Rightarrow> if truthy v then v else default_model e),
             settled = False \<rparr>]\<rparr>"
  using assms
  by (cases "MODEL_NAME e"; cases "member msg ''model''")
     (simp_all add: start_def js_or_def default_model_def Let_def)

lemma start_same_model:
  assumes "member msg ''model'' = member msg' ''model''"
  shows "start e msg s = start e msg' s"
  using assms by (simp add: start_def Let_def)

text \<open>
  C10. In every session, whatever start commands it received, every configuration message
  sent upstream is the constant one, with model \<^verbatim>\<open>gpt-4o-transcribe\<close> and language \<^verbatim>\<open>en\<close>.
  A start command that is accepted only posts a token request, whose model is the
  command's \<open>model\<close> when that is truthy and the deployment's default otherwise; and two
  start commands with the same \<open>model\<close> have the same effect, whatever their \<open>lang\<close>.
\<close>

theorem configuration_ignores_start:
  "(j < length (sockets (run e evs)) \<and> SessionUpdate c \<in> set (u_sent (sockets (run e evs) ! j)) \<longrightarrow>
      c = config \<and> transcription_model c = ''gpt-4o-transcribe'' \<and>
      transcription_language c = ''en'') \<and>
   (\<not> upstream_is_open s \<longrightarrow>
      start e msg s =
        s\<lparr>mints := mints s @
          [\<lparr> body_model = Some (case member msg ''model'' of
                                   None \<Rightarrow> default_model e
                                 | Some v \<Rightarrow> if truthy v then v else default_model e),
             settled = False \<rparr>]\<rparr>) \<and>
   (member msg ''model'' = member msg' ''model'' \<longrightarrow> start e msg s = start e msg' s)"
proof (intro conjI impI)
  assume h: "j < length (sockets (run e evs)) \<and>
    SessionUpdate c \<in> set (u_sent (sockets (run e evs) ! j))"
  then have c: "c = config"
    using configuration_in_sent [OF run_ok, of j e evs c] by simp
  then show "c = config" "transcription_model c = ''gpt-4o-transcribe''"
    "transcription_language c = ''en''"
    by (simp_all add: config_def)
next
  assume "\<not> upstream_is_open s"
  then show "start e msg s =
        s\<lparr>mints := mints s @
          [\<lparr> body_model = Some (case member msg ''model'' of
                                   None \<Rightarrow> default_model e
                                 | Some v \<Rightarrow> if truthy v then v else default_model e),
             settled = False \<rparr>]\<rparr>"
    by (rule start_posts_model)
next
  assume "member msg ''model'' = member msg' ''model''"
  then show "start e msg s = start e msg' s"
    by (rule start_same_model)
qed


theorem configuration_ignores_start_witness:
  "transcription_model config = ''gpt-4o-transcribe'' \<and>
   transcription_language config = ''en'' \<and>
   mints (start route_env
            (JObj [(''action'', JStr ''start''), (''lang'', JStr ''fr''), (''model'', JStr ''m1'')])
            onConnect) = [\<lparr> body_model = Some (JStr ''m1''), settled = False \<rparr>] \<and>
   start route_env
     (JObj [(''action'', JStr ''start''), (''lang'', JStr ''fr''), (''model'', JStr ''m1'')])
     onConnect =
   start route_env
     (JObj [(''action'', JStr ''start''), (''lang'', JStr ''en''), (''model'', JStr ''m1'')])
     onConnect"
proof -
  let ?evs = "[ClientMessage (Text start_text), MintSettled 0 (Minted ''tok''), UpstreamOpen 0]"
  let ?fr = "JObj [(''action'', JStr ''start''), (''lang'', JStr ''fr''), (''model'', JStr ''m1'')]"
  let ?en = "JObj [(''action'', JStr ''start''), (''lang'', JStr ''en''), (''model'', JStr ''m1'')]"
  have h: "0 < length (sockets (run route_env ?evs)) \<and>
           SessionUpdate config \<in> set (u_sent (sockets (run route_env ?evs) ! 0))"
    "\<not> upstream_is_open onConnect"
    "member ?fr ''model'' = member ?en ''model''"
    "member ?fr ''model'' = Some (JStr ''m1'')"
    "mints onConnect = []"
    by (simp_all add: eval_defs)
  from configuration_ignores_start
         [where j = 0 and e = route_env and evs = ?evs and c = config and s = onConnect
            and msg = ?fr and msg' = ?en] h(1-3)
  have "transcription_model config = ''gpt-4o-transcribe'' \<and>
        transcription_language config = ''en'' \<and>
        start route_env ?fr onConnect =
          onConnect\<lparr>mints := mints onConnect @
            [\<lparr> body_model = Some (case member ?fr ''model'' of
                                   None \<Rightarrow> default_model route_env
                                 | Some v \<Rightarrow> if truthy v then v else default_model route_env),
               settled = False \<rparr>]\<rparr> \<and>
        start route_env ?fr onConnect = start route_env ?en onConnect"
    by blast
  then have a: "transcription_model config = ''gpt-4o-transcribe''"
    "transcription_language config = ''en''"
    "start route_env ?fr onConnect = start route_env ?en onConnect"
    and b: "start route_env ?fr onConnect =
          onConnect\<lparr>mints := mints onConnect @
            [\<lparr> body_model = Some (case member ?fr ''model'' of
                                   None \<Rightarrow> default_model route_env
                                 | Some v \<Rightarrow> if truthy v then v else default_model route_env),
               settled = False \<rparr>]\<rparr>"
    by blast+
  have "mints (start route_env ?fr onConnect) =
          [\<lparr> body_model = Some (JStr ''m1''), settled = False \<rparr>]"
    unfolding b by (simp add: h(4,5))
  with a show ?thesis
    by (intro conjI)
qed

end
